theory Spec2Isabelle
  imports Complex_Main "HOL-Library.Char_ord" "HOL-Library.List_Lexorder"
begin

section \<open>Data model of \<^verbatim>\<open>SpatialDE/svca.py\<close>\<close>

text \<open>
  The module has two public functions, \<^verbatim>\<open>test_spatial_interactions\<close> and
  \<^verbatim>\<open>fit_spatial_interactions\<close>. Numbers are real numbers here (the rounding of
  floating point is outside the model), Python's unbounded integers are \<open>int\<close>, gene names
  are strings ordered as Python orders them (lexicographically by character code), and every
  \<^verbatim>\<open>raise\<close> is a value \<open>Inl e\<close>.
\<close>

type_synonym ndarray = "real list list"

text \<open>\<^verbatim>\<open>X.shape[1]\<close>: the number of columns of a two-dimensional array given by rows.\<close>

definition shape1 :: "ndarray \<Rightarrow> nat" where
  "shape1 a = (case a of [] \<Rightarrow> 0 | r # _ \<Rightarrow> length r)"

text \<open>
  A kernel parameter is initialised with a scalar (\<^verbatim>\<open>lengthscales = l\<close>) or with one
  number per dimension (\<^verbatim>\<open>[l] * X.shape[1]\<close>).
\<close>

datatype pvalue = Scalar real | Vector "real list"

text \<open>
  The transform of a parameter: the one the \<^verbatim>\<open>Spectral\<close> constructor attaches
  (the class is not part of this module), or \<^verbatim>\<open>tfp.bijectors.Sigmoid(low, high)\<close>.
\<close>

datatype transform = ConstructorDefault | Sigmoid real real

record parameter =
  p_value :: pvalue
  p_trainable :: bool
  p_transform :: transform

record spectral =
  variance :: parameter
  lengthscales :: parameter
  periods :: parameter

text \<open>\<^verbatim>\<open>SpectralMixture(kernels)\<close> is the list of its components, in order.\<close>

type_synonym spectral_mixture = "spectral list"

text \<open>
  \<^verbatim>\<open>adata.varm["svca"]\<close> is a structured array: the field names of its dtype and one
  tuple of parameter values per gene.
\<close>

record struct_array =
  dtype_names :: "string list"
  sa_rows :: "pvalue list list"

datatype uns_value = UInt int | UBool bool

text \<open>Python reads a \<^verbatim>\<open>bool\<close> as an integer and an integer as a truth value.\<close>

fun py_int :: "uns_value \<Rightarrow> int" where
  "py_int (UInt n) = n"
| "py_int (UBool b) = (if b then 1 else 0)"

fun py_bool :: "uns_value \<Rightarrow> bool" where
  "py_bool (UInt n) = (n \<noteq> 0)"
| "py_bool (UBool b) = b"

record anndata =
  adata_X :: ndarray
  var_names :: "string list"
  obsm :: "string \<rightharpoonup> ndarray"
  varm :: "string \<rightharpoonup> struct_array"
  uns :: "string \<rightharpoonup> uns_value"

text \<open>
  \<^verbatim>\<open>AnnData\<close> objects are mutable and passed by reference: the store is the list of the
  objects allocated so far, and a reference is a position in it.
\<close>

type_synonym ref = nat
type_synonym heap = "anndata list"

datatype error =
    KeyError string
  | AttributeError string
  | IndexError
  | ValueError
  | OptimizationFailed nat
  | NumericalInstability nat

datatype warning = NcomponentsWarning int | AbInitioWarning | NoGenesWarning

text \<open>
  What a run does to the world outside its return value, in program order: the warnings it
  emits and the constructors and methods of the model classes it calls.
\<close>

datatype event =
    Warn warning
  | NewSpectral
  | NewSpectralMixture
  | NewScoreTest
  | NewSVCA
  | UseInteractions bool
  | NewOptimizer
  | ScoreCall nat
  | SetCurrentGene nat
  | MultipleAssign "(string \<times> pvalue) list"
  | Optimize
  | FractionVariance

text \<open>\<^verbatim>\<open>SVCAInteractionScoreTest(adata.X, X, sizefactors, kernel)\<close>; \<^verbatim>\<open>test.kernel[0]\<close> is
  the kernel it was given.\<close>

record score_test =
  st_expression :: ndarray
  st_coords :: ndarray
  st_sizefactors :: ndarray
  st_kernel :: spectral_mixture

text \<open>\<^verbatim>\<open>SVCA(adata.X, X, sizefactors, kernel)\<close> with its interaction switch and its
  \<^verbatim>\<open>currentgene\<close> attribute.\<close>

record svca =
  svca_expression :: ndarray
  svca_coords :: ndarray
  svca_sizefactors :: ndarray
  svca_kernel :: spectral_mixture
  interactions :: bool
  currentgene :: nat

record fracvars =
  intrinsic :: real
  interaction :: real
  noise :: real

record fit_row = fracvars +
  fit_gene :: string
  fit_time :: real

record test_row =
  time :: real
  pval :: real
  gene :: string

record test_result_row = test_row +
  padj :: real

text \<open>
  The collaborators imported from \<^verbatim>\<open>._internal\<close>, from gpflow and from the clock, as
  parameters of the model: size factors, the length-scale limits of the distance cache, one
  call of the score test (the p-value \<^verbatim>\<open>res.pval\<close> and the test object after the call,
  or what it raised), gpflow's \<^verbatim>\<open>read_values\<close> (its keys are those of
  \<^verbatim>\<open>parameter_dict\<close>) and \<^verbatim>\<open>multiple_assign\<close>, the Benjamini-Hochberg adjustment,
  \<^verbatim>\<open>model.optimize()\<close>, the variance terms behind \<^verbatim>\<open>fraction_variance()\<close>, the
  wall-clock time measured around the call for a column, and the default \<^verbatim>\<open>variance\<close>
  of \<^verbatim>\<open>Spectral\<close>.
\<close>

record externals =
  calc_sizefactors :: "anndata \<Rightarrow> ndarray"
  get_l_limits :: "ndarray \<Rightarrow> real \<times> real"
  score_call :: "score_test \<Rightarrow> nat \<Rightarrow> error + (real \<times> score_test)"
  read_values :: "spectral_mixture \<Rightarrow> (string \<times> pvalue) list"
  multiple_assign :: "spectral_mixture \<Rightarrow> (string \<times> pvalue) list \<Rightarrow> error + spectral_mixture"
  bh_adjust :: "real list \<Rightarrow> real list"
  optimize :: "svca \<Rightarrow> error + svca"
  variance_terms :: "svca \<Rightarrow> real \<times> real \<times> real"
  elapsed :: "nat \<Rightarrow> real"
  default_variance :: real

section \<open>Library functions the module calls\<close>

text \<open>
  \<^verbatim>\<open>np.geomspace(start, stop, num)\<close>: numpy refuses a zero endpoint, takes
  \<open>num\<close> evenly spaced points between the decimal logarithms of the endpoints, raises 10
  to them and then writes the endpoints themselves into the first and last position. The
  endpoints here are distances; what numpy does with a negative endpoint is not modelled, and
  the statements about the grid assume positive endpoints.
\<close>

definition geomspace :: "real \<Rightarrow> real \<Rightarrow> nat \<Rightarrow> error + real list" where
  "geomspace start stop num =
     (if start = 0 \<or> stop = 0 then Inl ValueError
      else
        (let step = (log 10 stop - log 10 start) / real (num - 1);
             result = map (\<lambda>i. 10 powr (log 10 start + real i * step)) [0..<num];
             result = (if 0 < num then result[0 := start] else result);
             result = (if 1 < num then result[num - 1 := stop] else result)
         in Inr result))"

text \<open>\<^verbatim>\<open>tfp.bijectors.Sigmoid(low, high).forward\<close>.\<close>

definition sigmoid_forward :: "real \<Rightarrow> real \<Rightarrow> real \<Rightarrow> real" where
  "sigmoid_forward low high x = low + (high - low) * (1 / (1 + exp (- x)))"

text \<open>\<^verbatim>\<open>sorted(params.keys())\<close>.\<close>

definition sorted_keys :: "(string \<times> pvalue) list \<Rightarrow> string list" where
  "sorted_keys params = sort (remdups (map fst params))"

text \<open>\<^verbatim>\<open>[params[k] for k in sortedkeys]\<close>: a missing key raises.\<close>

fun lookup_keys :: "(string \<times> pvalue) list \<Rightarrow> string list \<Rightarrow> error + pvalue list" where
  "lookup_keys params [] = Inr []"
| "lookup_keys params (k # ks) =
     (case map_of params k of
        None \<Rightarrow> Inl (KeyError k)
      | Some v \<Rightarrow>
          (case lookup_keys params ks of
             Inl e \<Rightarrow> Inl e
           | Inr vs \<Rightarrow> Inr (v # vs)))"

text \<open>
  \<^verbatim>\<open>np.argsort(names)\<close>: a permutation of the positions that sorts the names. Equal
  names keep their order here; numpy does not promise an order among them, and the lookup
  below is proved from sortedness alone.
\<close>

definition argsort :: "string list \<Rightarrow> nat list" where
  "argsort names = sort_key (\<lambda>i. names ! i) [0..<length names]"

text \<open>
  \<^verbatim>\<open>np.searchsorted(a, v, sorter=idx)\<close>, side \<^verbatim>\<open>left\<close>: the number of positions of
  the sorted order whose name is smaller than \<open>v\<close>.
\<close>

definition searchsorted :: "string list \<Rightarrow> string \<Rightarrow> nat list \<Rightarrow> nat" where
  "searchsorted a v sorter = length (takeWhile (\<lambda>i. a ! i < v) sorter)"

text \<open>\<^verbatim>\<open>idx[positions]\<close>: indexing an array with an array raises when one position is out of
  range.\<close>

definition take_positions :: "nat list \<Rightarrow> nat list \<Rightarrow> error + nat list" where
  "take_positions idx ps =
     (if list_all (\<lambda>p. p < length idx) ps then Inr (map (\<lambda>p. idx ! p) ps) else Inl IndexError)"

section \<open>The constructors of the model classes\<close>

text \<open>
  \<^verbatim>\<open>Spectral(variance, lengthscales, periods)\<close>: three trainable parameters (gpflow's
  default) with the constructor's own transform.
\<close>

definition Spectral :: "pvalue \<Rightarrow> pvalue \<Rightarrow> pvalue \<Rightarrow> spectral" where
  "Spectral v ls ps =
     \<lparr>variance = \<lparr>p_value = v, p_trainable = True, p_transform = ConstructorDefault\<rparr>,
      lengthscales = \<lparr>p_value = ls, p_trainable = True, p_transform = ConstructorDefault\<rparr>,
      periods = \<lparr>p_value = ps, p_trainable = True, p_transform = ConstructorDefault\<rparr>\<rparr>"

text \<open>\<^verbatim>\<open>gpflow.set_trainable(parameter, flag)\<close>.\<close>

definition set_trainable :: "parameter \<Rightarrow> bool \<Rightarrow> parameter" where
  "set_trainable p flag = p\<lparr>p_trainable := flag\<rparr>"

text \<open>
  \<^verbatim>\<open>SVCA(adata.X, X, sizefactors, kernel)\<close> keeps its four arguments. What the
  constructor puts into the interaction switch and into \<^verbatim>\<open>currentgene\<close> is not visible
  in this module; both are written (\<^verbatim>\<open>use_interactions(True)\<close>, \<^verbatim>\<open>model.currentgene = i\<close>)
  before the model is used, and the record starts with \<open>False\<close> and 0.
\<close>

definition SVCA :: "ndarray \<Rightarrow> ndarray \<Rightarrow> ndarray \<Rightarrow> spectral_mixture \<Rightarrow> svca" where
  "SVCA y x sf k =
     \<lparr>svca_expression = y, svca_coords = x, svca_sizefactors = sf, svca_kernel = k,
      interactions = False, currentgene = 0\<rparr>"

definition use_interactions :: "svca \<Rightarrow> bool \<Rightarrow> svca" where
  "use_interactions m flag = m\<lparr>interactions := flag\<rparr>"

section \<open>\<^verbatim>\<open>test_spatial_interactions\<close>\<close>

text \<open>The body of the loop over \<^verbatim>\<open>np.geomspace(l_min, l_max, ncomponents)\<close>: one kernel
  component for the length-scale \<open>l\<close>.\<close>

definition test_component :: "real \<Rightarrow> real \<Rightarrow> nat \<Rightarrow> bool \<Rightarrow> real \<Rightarrow> spectral" where
  "test_component l_min l_max d ard l =
     (let ls = (if ard then Vector (replicate d l) else Scalar l);
          ps = (if ard then Vector (replicate d l_max) else Scalar l_max);
          k = Spectral (Scalar 1) ls ps;
          k = k\<lparr>variance := set_trainable (variance k) False\<rparr>;
          k = k\<lparr>lengthscales := (lengthscales k)\<lparr>p_transform := Sigmoid (0.5 * l_min) (2 * l_max)\<rparr>\<rparr>;
          k = k\<lparr>periods := (periods k)\<lparr>p_transform := Sigmoid (0.5 * l_min) (2 * l_max)\<rparr>\<rparr>
      in k)"

text \<open>The kernel of the score test: one component per point of the geometric grid.\<close>

definition test_kernel :: "real \<Rightarrow> real \<Rightarrow> nat \<Rightarrow> bool \<Rightarrow> int \<Rightarrow> error + spectral_mixture" where
  "test_kernel l_min l_max d ard ncomponents =
     (case geomspace l_min l_max (nat ncomponents) of
        Inl e \<Rightarrow> Inl e
      | Inr ls \<Rightarrow> Inr (map (test_component l_min l_max d ard) ls))"

text \<open>
  The loop over \<^verbatim>\<open>enumerate(adata.var_names)\<close>. Nothing catches what a call of the test
  raises: the loop stops there and the exception leaves the function. The events are those up
  to that point.
\<close>

fun score_loop ::
  "externals \<Rightarrow> string list \<Rightarrow> score_test \<Rightarrow> (nat \<times> string) list \<Rightarrow>
     event list \<times> (error + test_row list \<times> pvalue list list)" where
  "score_loop env sortedkeys test [] = ([], Inr ([], []))"
| "score_loop env sortedkeys test ((i, g) # rest) =
     (case score_call env test i of
        Inl e \<Rightarrow> ([ScoreCall i], Inl e)
      | Inr (p, test') \<Rightarrow>
          (case lookup_keys (read_values env (st_kernel test')) sortedkeys of
             Inl e \<Rightarrow> ([ScoreCall i], Inl e)
           | Inr vals \<Rightarrow>
               (case score_loop env sortedkeys test' rest of
                  (evs, Inl e) \<Rightarrow> (ScoreCall i # evs, Inl e)
                | (evs, Inr (results, parameters)) \<Rightarrow>
                    (ScoreCall i # evs,
                     Inr (\<lparr>time = elapsed env i, pval = p, gene = g\<rparr> # results,
                          vals # parameters)))))"

text \<open>\<^verbatim>\<open>results.loc[results.pval > 1, "pval"] = 1\<close>.\<close>

definition clip_pvals :: "test_row list \<Rightarrow> test_row list" where
  "clip_pvals results = map (\<lambda>r. if pval r > 1 then r\<lparr>pval := 1\<rparr> else r) results"

text \<open>\<^verbatim>\<open>results["padj"] = values\<close>: the new column, row by row.\<close>

definition set_padj :: "test_row list \<Rightarrow> real list \<Rightarrow> test_result_row list" where
  "set_padj results values = map (\<lambda>(r, q). test_row.extend r \<lparr>padj = q\<rparr>) (zip results values)"

text \<open>The four assignments that persist the state of the test in an \<^verbatim>\<open>AnnData\<close>.\<close>

definition persist ::
  "anndata \<Rightarrow> struct_array \<Rightarrow> ndarray \<Rightarrow> int \<Rightarrow> bool \<Rightarrow> anndata" where
  "persist adata params sf ncomponents ard =
     (let adata = adata\<lparr>varm := (varm adata)(''svca'' \<mapsto> params)\<rparr>;
          adata = adata\<lparr>obsm := (obsm adata)(''svca_sizefactors'' \<mapsto> sf)\<rparr>;
          adata = adata\<lparr>uns := (uns adata)(''svca_ncomponents'' \<mapsto> UInt ncomponents)\<rparr>;
          adata = adata\<lparr>uns := (uns adata)(''svca_ard'' \<mapsto> UBool ard)\<rparr>
      in adata)"

text \<open>
  The function. It reads the object at reference \<open>r\<close> of the store \<open>h\<close> and returns the
  events, and either the error raised or the table, the second element of the returned tuple
  and the store after the call. An error is raised before anything is written: the store is
  then the one the call started with.

  An empty \<^verbatim>\<open>var_names\<close> makes \<^verbatim>\<open>pd.DataFrame([])\<close> a table without columns, and
  \<^verbatim>\<open>results.pval\<close> raises.
\<close>

definition test_spatial_interactions ::
  "externals \<Rightarrow> heap \<Rightarrow> ref \<Rightarrow> string \<Rightarrow> int \<Rightarrow> bool \<Rightarrow> ndarray option \<Rightarrow> bool \<Rightarrow>
     event list \<times> (error + test_result_row list \<times> ref option \<times> heap)" where
  "test_spatial_interactions env h r spatial_key ncomponents ard sizefactors copy =
     (let adata = h ! r;
          emitted = (if ncomponents < 1 then [Warn (NcomponentsWarning ncomponents)] else []);
          ncomponents = (if ncomponents < 1 then 1 else ncomponents);
          sizefactors = (case sizefactors of None \<Rightarrow> calc_sizefactors env adata | Some s \<Rightarrow> s)
      in case obsm adata spatial_key of
           None \<Rightarrow> (emitted, Inl (KeyError spatial_key))
         | Some x \<Rightarrow>
             (case get_l_limits env x of (l_min, l_max) \<Rightarrow>
                (case test_kernel l_min l_max (shape1 x) ard ncomponents of
                   Inl e \<Rightarrow> (emitted, Inl e)
                 | Inr mixture \<Rightarrow>
                     (let emitted = emitted @ replicate (length mixture) NewSpectral @ [NewSpectralMixture];
                          test = \<lparr>st_expression = adata_X adata, st_coords = x,
                                  st_sizefactors = sizefactors, st_kernel = mixture\<rparr>;
                          emitted = emitted @ [NewScoreTest];
                          sortedkeys = sorted_keys (read_values env (st_kernel test))
                      in case score_loop env sortedkeys test (enumerate 0 (var_names adata)) of
                           (evs, Inl e) \<Rightarrow> (emitted @ evs, Inl e)
                         | (evs, Inr (results, parameters)) \<Rightarrow>
                             (if results = [] then (emitted @ evs, Inl (AttributeError ''pval''))
                              else
                                (let results = clip_pvals results;
                                     values = bh_adjust env (map pval results)
                                 in if length values \<noteq> length results
                                    then (emitted @ evs, Inl ValueError)
                                    else
                                      (let results = set_padj results values;
                                           (h, a, toreturn) =
                                             (if copy then (h @ [adata], length h, Some (length h))
                                              else (h, r, None));
                                           params = \<lparr>dtype_names = sortedkeys, sa_rows = parameters\<rparr>
                                       in (emitted @ evs,
                                           Inr (results, toreturn,
                                                h[a := persist (h ! a) params sizefactors ncomponents ard])))))))))"

section \<open>\<^verbatim>\<open>fit_spatial_interactions\<close>\<close>

text \<open>
  Modelled from the spec: \<^verbatim>\<open>SVCA.fraction_variance()\<close>, whose code
  (\<^verbatim>\<open>_internal/svca.py\<close>) is not part of this module. The spec: it "returns the three
  variance terms normalized to sum to 1, computed from the fitted \<open>\<sigma>\<^sup>2\<close> coefficients and
  the average diagonal (or trace-normalized) magnitude of each kernel term". The three terms
  of a fitted model are \<open>variance_terms\<close>.
\<close>

definition fraction_variance :: "externals \<Rightarrow> svca \<Rightarrow> fracvars" where
  "fraction_variance env model =
     (case variance_terms env model of
        (v_intrinsic, v_interaction, v_noise) \<Rightarrow>
          (let total = v_intrinsic + v_interaction + v_noise
           in \<lparr>intrinsic = v_intrinsic / total,
               interaction = v_interaction / total,
               noise = v_noise / total\<rparr>))"

text \<open>
  The first statement of the function: which mode the call runs in. It returns the warnings,
  and the values of \<^verbatim>\<open>genes\<close>, \<^verbatim>\<open>sizefactors\<close>, \<^verbatim>\<open>ncomponents\<close>, \<^verbatim>\<open>ard\<close> and
  \<^verbatim>\<open>trainable\<close> after it.
\<close>

definition fit_mode ::
  "externals \<Rightarrow> anndata \<Rightarrow> string list option \<Rightarrow> int \<Rightarrow> bool \<Rightarrow> ndarray option \<Rightarrow>
     event list \<times> string list \<times> ndarray \<times> int \<times> bool \<times> bool" where
  "fit_mode env adata genes ncomponents ard sizefactors =
     (if varm adata ''svca'' = None \<or> obsm adata ''svca_sizefactors'' = None \<or>
         uns adata ''svca_ncomponents'' = None \<or> uns adata ''svca_ard'' = None
      then
        (let emitted = [Warn AbInitioWarning];
             genes = (case genes of None \<Rightarrow> var_names adata | Some gs \<Rightarrow> gs);
             sizefactors =
               (case sizefactors of None \<Rightarrow> calc_sizefactors env adata | Some s \<Rightarrow> s);
             emitted =
               emitted @ (if ncomponents < 1 then [Warn (NcomponentsWarning ncomponents)] else []);
             ncomponents = (if ncomponents < 1 then 1 else ncomponents)
         in (emitted, genes, sizefactors, ncomponents, ard, True))
      else
        (let emitted = (case genes of None \<Rightarrow> [Warn NoGenesWarning] | Some gs \<Rightarrow> []);
             genes = (case genes of None \<Rightarrow> var_names adata | Some gs \<Rightarrow> gs);
             sizefactors = the (obsm adata ''svca_sizefactors'');
             ard = py_bool (the (uns adata ''svca_ard''));
             ncomponents = py_int (the (uns adata ''svca_ncomponents''))
         in (emitted, genes, sizefactors, ncomponents, ard, False)))"

text \<open>The body of \<^verbatim>\<open>for i in range(ncomponents)\<close>.\<close>

definition fit_component :: "externals \<Rightarrow> pvalue \<Rightarrow> pvalue \<Rightarrow> bool \<Rightarrow> spectral" where
  "fit_component env ls ps trainable =
     (let k = Spectral (Scalar (default_variance env)) ls ps;
          k = k\<lparr>variance := set_trainable (variance k) False\<rparr>;
          k = k\<lparr>lengthscales := set_trainable (lengthscales k) trainable\<rparr>;
          k = k\<lparr>periods := set_trainable (periods k) trainable\<rparr>
      in k)"

definition fit_kernel :: "externals \<Rightarrow> nat \<Rightarrow> bool \<Rightarrow> bool \<Rightarrow> int \<Rightarrow> spectral_mixture" where
  "fit_kernel env d ard trainable ncomponents =
     (let ls = (if ard then Vector (replicate d 1) else Scalar 1);
          ps = (if ard then Vector (replicate d 1) else Scalar 1)
      in map (\<lambda>i. fit_component env ls ps trainable) [0..<nat ncomponents])"

text \<open>
  \<^verbatim>\<open>idx = np.argsort(adata.var_names)\<close> and
  \<^verbatim>\<open>idx = idx[np.searchsorted(adata.var_names.to_numpy(), genes, sorter=idx)]\<close>.
\<close>

definition gene_indices :: "string list \<Rightarrow> string list \<Rightarrow> error + nat list" where
  "gene_indices names genes =
     (let idx = argsort names
      in take_positions idx (map (\<lambda>g. searchsorted names g idx) genes))"

text \<open>
  The head of the loop body: the model is pointed at column \<open>i\<close> and, when the parameters are
  not trainable, the persisted row \<open>i\<close> is assigned to the kernel.
\<close>

definition switch_gene ::
  "externals \<Rightarrow> anndata \<Rightarrow> bool \<Rightarrow> string list \<Rightarrow> svca \<Rightarrow> nat \<Rightarrow> event list \<times> (error + svca)" where
  "switch_gene env adata trainable param_names model i =
     (let model = model\<lparr>currentgene := i\<rparr>
      in if \<not> trainable
         then
           (let rows = sa_rows (the (varm adata ''svca''))
            in if length rows \<le> i then ([SetCurrentGene i], Inl IndexError)
               else
                 (let assignment = zip param_names (rows ! i)
                  in case multiple_assign env (svca_kernel model) assignment of
                       Inl e \<Rightarrow> ([SetCurrentGene i, MultipleAssign assignment], Inl e)
                     | Inr k \<Rightarrow>
                         ([SetCurrentGene i, MultipleAssign assignment],
                          Inr (model\<lparr>svca_kernel := k\<rparr>))))
         else ([SetCurrentGene i], Inr model))"

text \<open>
  The loop over \<^verbatim>\<open>zip(genes, idx)\<close>. Nothing catches what \<^verbatim>\<open>model.optimize()\<close> raises:
  the loop stops there and the exception leaves the function.
\<close>

fun fit_loop ::
  "externals \<Rightarrow> anndata \<Rightarrow> bool \<Rightarrow> string list \<Rightarrow> svca \<Rightarrow> (string \<times> nat) list \<Rightarrow>
     event list \<times> (error + fit_row list)" where
  "fit_loop env adata trainable param_names model [] = ([], Inr [])"
| "fit_loop env adata trainable param_names model ((g, i) # rest) =
     (case switch_gene env adata trainable param_names model i of
        (evs1, Inl e) \<Rightarrow> (evs1, Inl e)
      | (evs1, Inr model) \<Rightarrow>
          (case optimize env model of
             Inl e \<Rightarrow> (evs1 @ [Optimize], Inl e)
           | Inr model \<Rightarrow>
               (let fracvars = fraction_variance env model;
                    row = fracvars.extend fracvars \<lparr>fit_gene = g, fit_time = elapsed env i\<rparr>
                in case fit_loop env adata trainable param_names model rest of
                     (evs2, Inl e) \<Rightarrow> (evs1 @ [Optimize, FractionVariance] @ evs2, Inl e)
                   | (evs2, Inr results) \<Rightarrow>
                       (evs1 @ [Optimize, FractionVariance] @ evs2, Inr (row # results)))))"

text \<open>
  Everything between the choice of the mode and the loop: the kernel, the model and the
  optimizer are built, and the column of every requested gene is looked up.
\<close>

definition fit_spatial_interactions ::
  "externals \<Rightarrow> anndata \<Rightarrow> string list option \<Rightarrow> string \<Rightarrow> int \<Rightarrow> bool \<Rightarrow> ndarray option \<Rightarrow>
     event list \<times> (error + fit_row list)" where
  "fit_spatial_interactions env adata genes spatial_key ncomponents ard sizefactors =
     (case fit_mode env adata genes ncomponents ard sizefactors of
        (emitted, genes, sizefactors, ncomponents, ard, trainable) \<Rightarrow>
          (case obsm adata spatial_key of
             None \<Rightarrow> (emitted, Inl (KeyError spatial_key))
           | Some x \<Rightarrow>
               (let mixture = fit_kernel env (shape1 x) ard trainable ncomponents;
                    emitted = emitted @ replicate (length mixture) NewSpectral @ [NewSpectralMixture];
                    model = SVCA (adata_X adata) x sizefactors mixture;
                    model = use_interactions model True;
                    emitted = emitted @ [NewSVCA, UseInteractions True, NewOptimizer]
                in case gene_indices (var_names adata) genes of
                     Inl e \<Rightarrow> (emitted, Inl e)
                   | Inr idx \<Rightarrow>
                       (let param_names =
                              (if \<not> trainable then dtype_names (the (varm adata ''svca'')) else [])
                        in case fit_loop env adata trainable param_names model (zip genes idx) of
                             (evs, res) \<Rightarrow> (emitted @ evs, res)))))"

section \<open>Reading the events of a run\<close>

text \<open>The columns the model was pointed at, in order.\<close>

fun current_genes :: "event list \<Rightarrow> nat list" where
  "current_genes [] = []"
| "current_genes (SetCurrentGene i # es) = i # current_genes es"
| "current_genes (e # es) = current_genes es"

text \<open>An event that constructs a kernel, a model, a test or an optimizer.\<close>

fun is_construction :: "event \<Rightarrow> bool" where
  "is_construction NewSpectral = True"
| "is_construction NewSpectralMixture = True"
| "is_construction NewScoreTest = True"
| "is_construction NewSVCA = True"
| "is_construction NewOptimizer = True"
| "is_construction e = False"

text \<open>An event of the body of the loop of \<^verbatim>\<open>fit_spatial_interactions\<close>.\<close>

fun is_gene_step :: "event \<Rightarrow> bool" where
  "is_gene_step (SetCurrentGene i) = True"
| "is_gene_step (MultipleAssign a) = True"
| "is_gene_step Optimize = True"
| "is_gene_step FractionVariance = True"
| "is_gene_step e = False"

section \<open>A concrete data set and concrete collaborators\<close>

text \<open>
  Three cells at (0,0), (1,0), (0,1) and two genes, named so that the order of the columns is
  not the sorted order of the names. The collaborators are small and deterministic: the score
  test returns 3/2 for column 1, a p-value above 1, and 1/4 otherwise; the kernel's parameter
  dictionary has the length-scale and the period of the first component.
\<close>

fun ex_multiple_assign ::
  "spectral_mixture \<Rightarrow> (string \<times> pvalue) list \<Rightarrow> error + spectral_mixture" where
  "ex_multiple_assign k [] = Inr k"
| "ex_multiple_assign [] ((n, v) # rest) = Inl (KeyError n)"
| "ex_multiple_assign (c # cs) ((n, v) # rest) =
     (if n = ''lengthscales''
      then ex_multiple_assign (c\<lparr>lengthscales := (lengthscales c)\<lparr>p_value := v\<rparr>\<rparr> # cs) rest
      else if n = ''periods''
      then ex_multiple_assign (c\<lparr>periods := (periods c)\<lparr>p_value := v\<rparr>\<rparr> # cs) rest
      else Inl (KeyError n))"

definition ex_read_values :: "spectral_mixture \<Rightarrow> (string \<times> pvalue) list" where
  "ex_read_values k =
     (case k of
        [] \<Rightarrow> []
      | c # cs \<Rightarrow>
          [(''periods'', p_value (periods c)), (''lengthscales'', p_value (lengthscales c))])"

definition ex_score_call :: "score_test \<Rightarrow> nat \<Rightarrow> error + (real \<times> score_test)" where
  "ex_score_call t i = (if i = 1 then Inr (3 / 2, t) else Inr (1 / 4, t))"

definition ex_env :: externals where
  "ex_env =
     \<lparr>calc_sizefactors = (\<lambda>a. [[1], [1], [1]]),
      get_l_limits = (\<lambda>x. (1, 4)),
      score_call = ex_score_call,
      read_values = ex_read_values,
      multiple_assign = ex_multiple_assign,
      bh_adjust = map (\<lambda>p. min 1 (2 * p)),
      optimize = Inr,
      variance_terms = (\<lambda>m. (1, 1, 2)),
      elapsed = (\<lambda>i. 0),
      default_variance = 1\<rparr>"

text \<open>The same collaborators, but the fit and the test of column 0 fail.\<close>

definition ex_failing_optimize :: "svca \<Rightarrow> error + svca" where
  "ex_failing_optimize m =
     (if currentgene m = 0 then Inl (OptimizationFailed 0) else Inr m)"

definition ex_failing_score_call :: "score_test \<Rightarrow> nat \<Rightarrow> error + (real \<times> score_test)" where
  "ex_failing_score_call t i =
     (if i = 0 then Inl (NumericalInstability 0) else Inr (1 / 4, t))"

definition ex_failing_env :: externals where
  "ex_failing_env =
     ex_env\<lparr>score_call := ex_failing_score_call, optimize := ex_failing_optimize\<rparr>"

definition ex_adata :: anndata where
  "ex_adata =
     \<lparr>adata_X = [[1, 2], [3, 4], [5, 6]],
      var_names = [''b'', ''a''],
      obsm = [''spatial'' \<mapsto> [[0, 0], [1, 0], [0, 1]]],
      varm = Map.empty,
      uns = Map.empty\<rparr>"

definition ex_params :: struct_array where
  "ex_params =
     \<lparr>dtype_names = [''lengthscales'', ''periods''],
      sa_rows = [[Scalar 1, Scalar 4], [Scalar 1, Scalar 4]]\<rparr>"

text \<open>The data set after a test with one component, and one carrying the state of a test
  with two components.\<close>

definition ex_tested :: anndata where
  "ex_tested = persist ex_adata ex_params [[1], [1], [1]] 1 False"

definition ex_tested2 :: anndata where
  "ex_tested2 = persist ex_adata ex_params [[1], [1], [1]] 2 False"

definition ex_results :: "test_result_row list" where
  "ex_results =
     [\<lparr>time = 0, pval = 1 / 4, gene = ''b'', padj = 1 / 2\<rparr>,
      \<lparr>time = 0, pval = 1, gene = ''a'', padj = 1\<rparr>]"

definition ex_test_events :: "event list" where
  "ex_test_events = [NewSpectral, NewSpectralMixture, NewScoreTest, ScoreCall 0, ScoreCall 1]"

definition ex_fit_rows :: "fit_row list" where
  "ex_fit_rows =
     [\<lparr>intrinsic = 1 / 4, interaction = 1 / 4, noise = 1 / 2, fit_gene = ''b'', fit_time = 0\<rparr>,
      \<lparr>intrinsic = 1 / 4, interaction = 1 / 4, noise = 1 / 2, fit_gene = ''a'', fit_time = 0\<rparr>]"

text \<open>The score test object built for the data set with one component.\<close>

definition ex_test :: score_test where
  "ex_test =
     \<lparr>st_expression = [[1, 2], [3, 4], [5, 6]], st_coords = [[0, 0], [1, 0], [0, 1]],
      st_sizefactors = [[1], [1], [1]],
      st_kernel =
        [\<lparr>variance = \<lparr>p_value = Scalar 1, p_trainable = False, p_transform = ConstructorDefault\<rparr>,
          lengthscales = \<lparr>p_value = Scalar 1, p_trainable = True, p_transform = Sigmoid (1 / 2) 8\<rparr>,
          periods = \<lparr>p_value = Scalar 4, p_trainable = True, p_transform = Sigmoid (1 / 2) 8\<rparr>\<rparr>]\<rparr>"


section \<open>The concrete runs\<close>

lemma ex_env_simps:
  "calc_sizefactors ex_env = (\<lambda>a. [[1], [1], [1]])"
  "get_l_limits ex_env = (\<lambda>x. (1, 4))"
  "score_call ex_env = ex_score_call"
  "read_values ex_env = ex_read_values"
  "multiple_assign ex_env = ex_multiple_assign"
  "bh_adjust ex_env = map (\<lambda>p. min 1 (2 * p))"
  "optimize ex_env = Inr"
  "variance_terms ex_env = (\<lambda>m. (1, 1, 2))"
  "elapsed ex_env = (\<lambda>i. 0)"
  "default_variance ex_env = 1"
  by (simp_all add: ex_env_def)

lemma ex_failing_env_simps:
  "calc_sizefactors ex_failing_env = (\<lambda>a. [[1], [1], [1]])"
  "get_l_limits ex_failing_env = (\<lambda>x. (1, 4))"
  "score_call ex_failing_env = ex_failing_score_call"
  "read_values ex_failing_env = ex_read_values"
  "multiple_assign ex_failing_env = ex_multiple_assign"
  "optimize ex_failing_env = ex_failing_optimize"
  "variance_terms ex_failing_env = (\<lambda>m. (1, 1, 2))"
  "elapsed ex_failing_env = (\<lambda>i. 0)"
  "default_variance ex_failing_env = 1"
  by (simp_all add: ex_failing_env_def ex_env_def)

lemma geomspace_one: "start \<noteq> 0 \<Longrightarrow> stop \<noteq> 0 \<Longrightarrow> geomspace start stop (Suc 0) = Inr [start]"
  by (simp add: geomspace_def)

lemma ex_test_kernel:
  "test_kernel 1 4 d False 1 =
     Inr [\<lparr>variance = \<lparr>p_value = Scalar 1, p_trainable = False, p_transform = ConstructorDefault\<rparr>,
           lengthscales = \<lparr>p_value = Scalar 1, p_trainable = True, p_transform = Sigmoid (1 / 2) 8\<rparr>,
           periods = \<lparr>p_value = Scalar 4, p_trainable = True, p_transform = Sigmoid (1 / 2) 8\<rparr>\<rparr>]"
  by (simp add: test_kernel_def geomspace_one test_component_def Spectral_def set_trainable_def Let_def)

lemma ex_sorted_keys: "sorted_keys (ex_read_values (c # cs)) = [''lengthscales'', ''periods'']"
  by (simp add: sorted_keys_def ex_read_values_def)

lemma length_clip_pvals: "length (clip_pvals rs) = length rs"
  by (simp add: clip_pvals_def)

lemma test_returns:
  assumes "obsm (h ! r) spatial_key = Some x"
    and "get_l_limits env x = (l_min, l_max)"
    and "n' = (if ncomponents < 1 then 1 else ncomponents)"
    and "sf' = (case sf of None \<Rightarrow> calc_sizefactors env (h ! r) | Some s \<Rightarrow> s)"
    and "test_kernel l_min l_max (shape1 x) ard n' = Inr mixture"
    and "keys = sorted_keys (read_values env mixture)"
    and "score_loop env keys
           \<lparr>st_expression = adata_X (h ! r), st_coords = x, st_sizefactors = sf', st_kernel = mixture\<rparr>
           (enumerate 0 (var_names (h ! r))) = (evs, Inr (rows, params))"
    and "rows \<noteq> []"
    and "length (bh_adjust env (map pval (clip_pvals rows))) = length rows"
  shows "test_spatial_interactions env h r spatial_key ncomponents ard sf copy =
           ((if ncomponents < 1 then [Warn (NcomponentsWarning ncomponents)] else []) @
              replicate (length mixture) NewSpectral @ [NewSpectralMixture, NewScoreTest] @ evs,
            Inr (set_padj (clip_pvals rows) (bh_adjust env (map pval (clip_pvals rows))),
                 (if copy then Some (length h) else None),
                 (if copy
                  then h @ [persist (h ! r) \<lparr>dtype_names = keys, sa_rows = params\<rparr> sf' n' ard]
                  else h[r := persist (h ! r) \<lparr>dtype_names = keys, sa_rows = params\<rparr> sf' n' ard])))"
  using assms
  unfolding test_spatial_interactions_def Let_def
  by (auto simp: length_clip_pvals nth_append)

lemma ex_score_loop:
  "score_loop ex_env [''lengthscales'', ''periods''] ex_test [(0, ''b''), (Suc 0, ''a'')] =
     ([ScoreCall 0, ScoreCall 1],
      Inr ([\<lparr>time = 0, pval = 1 / 4, gene = ''b''\<rparr>, \<lparr>time = 0, pval = 3 / 2, gene = ''a''\<rparr>],
           [[Scalar 1, Scalar 4], [Scalar 1, Scalar 4]]))"
  by (simp add: ex_env_simps ex_score_call_def ex_read_values_def ex_test_def)

lemma ex_test_run:
  "test_spatial_interactions ex_env [ex_adata] 0 ''spatial'' 1 False None False =
     (ex_test_events, Inr (ex_results, None, [ex_tested]))"
proof -
  have 1: "obsm ([ex_adata] ! 0) ''spatial'' = Some [[0, 0], [1, 0], [0, 1]]"
    by (simp add: ex_adata_def)
  have 2: "get_l_limits ex_env [[0, 0], [1, 0], [0, 1]] = (1, 4)"
    by (simp add: ex_env_simps)
  have 3: "test_kernel 1 4 (shape1 [[0, 0], [1, 0], [0, 1]]) False 1 = Inr (st_kernel ex_test)"
    by (simp add: ex_test_kernel ex_test_def)
  have 4: "[''lengthscales'', ''periods''] = sorted_keys (read_values ex_env (st_kernel ex_test))"
    by (simp add: ex_env_simps ex_sorted_keys ex_test_def)
  have 5: "score_loop ex_env [''lengthscales'', ''periods'']
             \<lparr>st_expression = adata_X ([ex_adata] ! 0), st_coords = [[0, 0], [1, 0], [0, 1]],
              st_sizefactors = [[1], [1], [1]], st_kernel = st_kernel ex_test\<rparr>
             (enumerate 0 (var_names ([ex_adata] ! 0))) =
           ([ScoreCall 0, ScoreCall 1],
            Inr ([\<lparr>time = 0, pval = 1 / 4, gene = ''b''\<rparr>, \<lparr>time = 0, pval = 3 / 2, gene = ''a''\<rparr>],
                 [[Scalar 1, Scalar 4], [Scalar 1, Scalar 4]]))"
    using ex_score_loop by (simp add: ex_adata_def ex_test_def enumerate_eq_zip upt_rec)
  show ?thesis
    using test_returns [where ncomponents = 1 and sf = None and copy = False and n' = 1
        and sf' = "[[1], [1], [1]]", OF 1 2 _ _ 3 4 5]
    by (simp add: ex_env_simps clip_pvals_def set_padj_def test_row.defs ex_results_def
        ex_tested_def ex_params_def ex_test_events_def ex_test_def)
qed

section \<open>Runs of the test that return\<close>

lemma test_run_Inr:
  assumes run: "test_spatial_interactions env h r spatial_key ncomponents ard sf copy =
                  (evs, Inr (results, toreturn, h'))"
  shows "\<exists>x l_min l_max mixture evs' rows params sf' n' keys.
           n' = (if ncomponents < 1 then 1 else ncomponents) \<and>
           sf' = (case sf of None \<Rightarrow> calc_sizefactors env (h ! r) | Some s \<Rightarrow> s) \<and>
           obsm (h ! r) spatial_key = Some x \<and>
           get_l_limits env x = (l_min, l_max) \<and>
           test_kernel l_min l_max (shape1 x) ard n' = Inr mixture \<and>
           keys = sorted_keys (read_values env mixture) \<and>
           score_loop env keys
             \<lparr>st_expression = adata_X (h ! r), st_coords = x, st_sizefactors = sf', st_kernel = mixture\<rparr>
             (enumerate 0 (var_names (h ! r))) = (evs', Inr (rows, params)) \<and>
           rows \<noteq> [] \<and>
           length (bh_adjust env (map pval (clip_pvals rows))) = length rows \<and>
           results = set_padj (clip_pvals rows) (bh_adjust env (map pval (clip_pvals rows))) \<and>
           toreturn = (if copy then Some (length h) else None) \<and>
           h' = (if copy
                 then h @ [persist (h ! r) \<lparr>dtype_names = keys, sa_rows = params\<rparr> sf' n' ard]
                 else h[r := persist (h ! r) \<lparr>dtype_names = keys, sa_rows = params\<rparr> sf' n' ard])"
  using run
  unfolding test_spatial_interactions_def Let_def
  by (auto split: option.splits sum.splits prod.splits if_splits simp: length_clip_pvals nth_append)










lemma ex_test_run_copy:
  "test_spatial_interactions ex_env [ex_adata] 0 ''spatial'' 0 False None True =
     (Warn (NcomponentsWarning 0) # ex_test_events, Inr (ex_results, Some 1, [ex_adata, ex_tested]))"
proof -
  have 1: "obsm ([ex_adata] ! 0) ''spatial'' = Some [[0, 0], [1, 0], [0, 1]]"
    by (simp add: ex_adata_def)
  have 2: "get_l_limits ex_env [[0, 0], [1, 0], [0, 1]] = (1, 4)"
    by (simp add: ex_env_simps)
  have 3: "test_kernel 1 4 (shape1 [[0, 0], [1, 0], [0, 1]]) False 1 = Inr (st_kernel ex_test)"
    by (simp add: ex_test_kernel ex_test_def)
  have 4: "[''lengthscales'', ''periods''] = sorted_keys (read_values ex_env (st_kernel ex_test))"
    by (simp add: ex_env_simps ex_sorted_keys ex_test_def)
  have 5: "score_loop ex_env [''lengthscales'', ''periods'']
             \<lparr>st_expression = adata_X ([ex_adata] ! 0), st_coords = [[0, 0], [1, 0], [0, 1]],
              st_sizefactors = [[1], [1], [1]], st_kernel = st_kernel ex_test\<rparr>
             (enumerate 0 (var_names ([ex_adata] ! 0))) =
           ([ScoreCall 0, ScoreCall 1],
            Inr ([\<lparr>time = 0, pval = 1 / 4, gene = ''b''\<rparr>, \<lparr>time = 0, pval = 3 / 2, gene = ''a''\<rparr>],
                 [[Scalar 1, Scalar 4], [Scalar 1, Scalar 4]]))"
    using ex_score_loop by (simp add: ex_adata_def ex_test_def enumerate_eq_zip upt_rec)
  show ?thesis
    using test_returns [where ncomponents = 0 and sf = None and copy = True and n' = 1
        and sf' = "[[1], [1], [1]]", OF 1 2 _ _ 3 4 5]
    by (simp add: ex_env_simps clip_pvals_def set_padj_def test_row.defs ex_results_def
        ex_tested_def ex_params_def ex_test_events_def ex_test_def)
qed

text \<open>
  C9. When \<^verbatim>\<open>test_spatial_interactions\<close> returns: with \<^verbatim>\<open>copy=True\<close> the store
  gains one object, the copy with the four fields written, whose reference is the second
  element of the result, and the input object is unchanged; with \<^verbatim>\<open>copy=False\<close> the
  second element is \<^verbatim>\<open>None\<close> and the input object is the old one with
  \<^verbatim>\<open>varm["svca"]\<close>, \<^verbatim>\<open>obsm["svca_sizefactors"]\<close>, \<^verbatim>\<open>uns["svca_ncomponents"]\<close> and
  \<^verbatim>\<open>uns["svca_ard"]\<close> written and nothing else changed.
\<close>

theorem C9_copy_and_in_place_writes:
  assumes run: "test_spatial_interactions env h r spatial_key ncomponents ard sf copy =
                  (evs, Inr (results, toreturn, h'))"
    and r: "r < length h"
  shows "\<exists>params written.
           written =
             (h ! r)\<lparr>varm := (varm (h ! r))(''svca'' \<mapsto> params),
                     obsm := (obsm (h ! r))(''svca_sizefactors'' \<mapsto>
                       (case sf of None \<Rightarrow> calc_sizefactors env (h ! r) | Some s \<Rightarrow> s)),
                     uns := (uns (h ! r))
                       (''svca_ncomponents'' \<mapsto> UInt (if ncomponents < 1 then 1 else ncomponents),
                        ''svca_ard'' \<mapsto> UBool ard)\<rparr> \<and>
           (if copy
            then toreturn = Some (length h) \<and> h' = h @ [written] \<and> h' ! r = h ! r
            else toreturn = None \<and> h' = h[r := written] \<and> h' ! r = written)"
proof -
  from test_run_Inr [OF run] obtain keys params sf' n' where
    n': "n' = (if ncomponents < 1 then 1 else ncomponents)"
    and sf': "sf' = (case sf of None \<Rightarrow> calc_sizefactors env (h ! r) | Some s \<Rightarrow> s)"
    and ret: "toreturn = (if copy then Some (length h) else None)"
    and h': "h' = (if copy
                 then h @ [persist (h ! r) \<lparr>dtype_names = keys, sa_rows = params\<rparr> sf' n' ard]
                 else h[r := persist (h ! r) \<lparr>dtype_names = keys, sa_rows = params\<rparr> sf' n' ard])"
    by blast
  have "persist (h ! r) \<lparr>dtype_names = keys, sa_rows = params\<rparr> sf' n' ard =
          (h ! r)\<lparr>varm := (varm (h ! r))(''svca'' \<mapsto> \<lparr>dtype_names = keys, sa_rows = params\<rparr>),
                  obsm := (obsm (h ! r))(''svca_sizefactors'' \<mapsto> sf'),
                  uns := (uns (h ! r))(''svca_ncomponents'' \<mapsto> UInt n', ''svca_ard'' \<mapsto> UBool ard)\<rparr>"
    by (simp add: persist_def Let_def)
  then show ?thesis
    using r unfolding ret h' n' sf'
    by (intro exI [of _ "\<lparr>dtype_names = keys, sa_rows = params\<rparr>"] exI [of _ "persist (h ! r) \<lparr>dtype_names = keys, sa_rows = params\<rparr> sf' n' ard"])
      (simp add: nth_append n' sf')
qed

theorem C9_witness:
  "0 < length [ex_adata] \<and>
   [ex_tested] ! 0 =
     ex_adata\<lparr>varm := (varm ex_adata)(''svca'' \<mapsto> ex_params),
              obsm := (obsm ex_adata)(''svca_sizefactors'' \<mapsto> [[1], [1], [1]]),
              uns := (uns ex_adata)(''svca_ncomponents'' \<mapsto> UInt 1, ''svca_ard'' \<mapsto> UBool False)\<rparr> \<and>
   [ex_adata, ex_tested] ! 0 = [ex_adata] ! 0"
proof -
  have r: "0 < length [ex_adata]" by simp
  from C9_copy_and_in_place_writes [OF ex_test_run r]
  have "\<exists>params. [ex_tested] ! 0 =
     ex_adata\<lparr>varm := (varm ex_adata)(''svca'' \<mapsto> params),
              obsm := (obsm ex_adata)(''svca_sizefactors'' \<mapsto> [[1], [1], [1]]),
              uns := (uns ex_adata)(''svca_ncomponents'' \<mapsto> UInt 1, ''svca_ard'' \<mapsto> UBool False)\<rparr>"
    by (simp add: ex_env_simps)
  moreover from C9_copy_and_in_place_writes [OF ex_test_run_copy r]
  have "[ex_adata, ex_tested] ! 0 = [ex_adata] ! 0"
    by simp
  ultimately show ?thesis
    by (simp add: ex_tested_def persist_def Let_def)
qed

section \<open>Runs of the fit\<close>

lemma length_fit_kernel: "length (fit_kernel env d ard trainable n) = nat n"
  by (simp add: fit_kernel_def Let_def)

lemma fit_unfold:
  assumes "fit_mode env adata genes ncomponents ard sf = (emitted, gs, sf', n', ard', trainable)"
    and "obsm adata spatial_key = Some x"
    and "gene_indices (var_names adata) gs = Inr idx"
    and "fit_loop env adata trainable
           (if \<not> trainable then dtype_names (the (varm adata ''svca'')) else [])
           (use_interactions (SVCA (adata_X adata) x sf' (fit_kernel env (shape1 x) ard' trainable n')) True)
           (zip gs idx) = (evs, res)"
  shows "fit_spatial_interactions env adata genes spatial_key ncomponents ard sf =
           (emitted @ replicate (nat n') NewSpectral @
              [NewSpectralMixture, NewSVCA, UseInteractions True, NewOptimizer] @ evs, res)"
  using assms
  unfolding fit_spatial_interactions_def Let_def
  by (simp add: length_fit_kernel)

lemma ex_argsort: "argsort [''b'', ''a''] = [1, 0]"
  by (simp add: argsort_def upt_rec)

lemma ex_gene_indices: "gene_indices [''b'', ''a''] [''b'', ''a''] = Inr [0, 1]"
  by (simp add: gene_indices_def ex_argsort searchsorted_def take_positions_def)


lemma ex_gene_indices_c: "gene_indices [''b'', ''a''] [''c''] = Inl IndexError"
  by (simp add: gene_indices_def ex_argsort searchsorted_def take_positions_def)

lemma ex_fit_mode_abinitio:
  "fit_mode env ex_adata None n False None =
     (Warn AbInitioWarning # (if n < 1 then [Warn (NcomponentsWarning n)] else []),
      [''b'', ''a''], calc_sizefactors env ex_adata, (if n < 1 then 1 else n), False, True)"
  "fit_mode env ex_adata (Some g) n False None =
     (Warn AbInitioWarning # (if n < 1 then [Warn (NcomponentsWarning n)] else []),
      g, calc_sizefactors env ex_adata, (if n < 1 then 1 else n), False, True)"
  by (simp_all add: fit_mode_def ex_adata_def)

lemma ex_fit_mode_refit:
  "fit_mode env ex_tested2 None n ard sf =
     ([Warn NoGenesWarning], [''b'', ''a''], [[1], [1], [1]], 2, False, False)"
  "fit_mode env ex_tested2 (Some g) n ard sf = ([], g, [[1], [1], [1]], 2, False, False)"
  by (simp_all add: fit_mode_def ex_tested2_def persist_def ex_adata_def Let_def)

lemma fit_row_fields:
  "fit_gene (fracvars.extend fv \<lparr>fit_gene = g, fit_time = t\<rparr>) = g"
  "fit_time (fracvars.extend fv \<lparr>fit_gene = g, fit_time = t\<rparr>) = t"
  "intrinsic (fracvars.extend fv \<lparr>fit_gene = g, fit_time = t\<rparr>) = intrinsic fv"
  "interaction (fracvars.extend fv \<lparr>fit_gene = g, fit_time = t\<rparr>) = interaction fv"
  "noise (fracvars.extend fv \<lparr>fit_gene = g, fit_time = t\<rparr>) = noise fv"
  by (cases fv; simp add: fracvars.defs)+

lemma fit_loop_rows:
  "fit_loop env adata trainable pn model ps = (evs, Inr rows) \<Longrightarrow> map fit_gene rows = map fst ps"
proof (induction ps arbitrary: model evs rows)
  case Nil
  then show ?case by simp
next
  case (Cons p ps)
  obtain g i where p: "p = (g, i)" by (cases p)
  from Cons.prems show ?case
    unfolding p
    by (auto simp: Let_def fit_row_fields split: sum.splits prod.splits dest: Cons.IH)
qed



lemma fit_run_Inr:
  assumes "fit_spatial_interactions env adata genes spatial_key ncomponents ard sf = (evs, Inr rows)"
  shows "\<exists>emitted gs sf' n' ard' trainable x idx evs'.
           fit_mode env adata genes ncomponents ard sf = (emitted, gs, sf', n', ard', trainable) \<and>
           obsm adata spatial_key = Some x \<and>
           gene_indices (var_names adata) gs = Inr idx \<and>
           fit_loop env adata trainable
             (if \<not> trainable then dtype_names (the (varm adata ''svca'')) else [])
             (use_interactions (SVCA (adata_X adata) x sf' (fit_kernel env (shape1 x) ard' trainable n')) True)
             (zip gs idx) = (evs', Inr rows) \<and>
           evs = emitted @ replicate (nat n') NewSpectral @
              [NewSpectralMixture, NewSVCA, UseInteractions True, NewOptimizer] @ evs'"
proof -
  obtain emitted gs sf' n' ard' trainable where
    mode: "fit_mode env adata genes ncomponents ard sf = (emitted, gs, sf', n', ard', trainable)"
    using prod_cases6 by blast
  from assms mode obtain x where x: "obsm adata spatial_key = Some x"
    by (auto simp: fit_spatial_interactions_def split: option.splits)
  from assms mode x obtain idx where idx: "gene_indices (var_names adata) gs = Inr idx"
    by (auto simp: fit_spatial_interactions_def Let_def split: sum.splits)
  obtain evs' res where
    loop: "fit_loop env adata trainable
             (if \<not> trainable then dtype_names (the (varm adata ''svca'')) else [])
             (use_interactions (SVCA (adata_X adata) x sf' (fit_kernel env (shape1 x) ard' trainable n')) True)
             (zip gs idx) = (evs', res)"
    by (cases "fit_loop env adata trainable
             (if \<not> trainable then dtype_names (the (varm adata ''svca'')) else [])
             (use_interactions (SVCA (adata_X adata) x sf' (fit_kernel env (shape1 x) ard' trainable n')) True)
             (zip gs idx)")
  from fit_unfold [OF mode x idx loop] assms
  have "res = Inr rows"
    and "evs = emitted @ replicate (nat n') NewSpectral @
              [NewSpectralMixture, NewSVCA, UseInteractions True, NewOptimizer] @ evs'"
    by simp_all
  with mode x idx loop show ?thesis
    by blast
qed

lemma fit_mode_genes:
  "fit_mode env adata genes ncomponents ard sf = (emitted, gs, sf', n', ard', trainable) \<Longrightarrow>
     gs = (case genes of None \<Rightarrow> var_names adata | Some g \<Rightarrow> g)"
  by (auto simp: fit_mode_def Let_def split: if_splits)

lemma length_take_positions: "take_positions idx ps = Inr is \<Longrightarrow> length is = length ps"
  by (auto simp: take_positions_def split: if_splits)

lemma length_gene_indices: "gene_indices names genes = Inr idx \<Longrightarrow> length idx = length genes"
  by (auto simp: gene_indices_def Let_def dest: length_take_positions)

lemma ex_fraction_variance:
  "fraction_variance ex_env m = \<lparr>intrinsic = 1 / 4, interaction = 1 / 4, noise = 1 / 2\<rparr>"
  "fraction_variance ex_failing_env m = \<lparr>intrinsic = 1 / 4, interaction = 1 / 4, noise = 1 / 2\<rparr>"
  by (simp_all add: fraction_variance_def ex_env_simps ex_failing_env_simps)

lemma ex_fit_loop:
  "fit_loop ex_env adata True pn m [(''b'', 0), (''a'', Suc 0)] =
     ([SetCurrentGene 0, Optimize, FractionVariance, SetCurrentGene 1, Optimize, FractionVariance],
      Inr ex_fit_rows)"
  by (simp add: switch_gene_def ex_env_simps ex_fraction_variance fracvars.defs ex_fit_rows_def)

lemma ex_fit_run:
  "fit_spatial_interactions ex_env ex_adata None ''spatial'' 1 False None =
     ([Warn AbInitioWarning, NewSpectral, NewSpectralMixture, NewSVCA, UseInteractions True,
       NewOptimizer, SetCurrentGene 0, Optimize, FractionVariance, SetCurrentGene 1, Optimize,
       FractionVariance],
      Inr ex_fit_rows)"
proof -
  have x: "obsm ex_adata ''spatial'' = Some [[0, 0], [1, 0], [0, 1]]"
    by (simp add: ex_adata_def)
  have idx: "gene_indices (var_names ex_adata) [''b'', ''a''] = Inr [0, 1]"
    by (simp add: ex_adata_def ex_gene_indices)
  show ?thesis
    using fit_unfold [OF ex_fit_mode_abinitio(1) x idx, of ex_env 1]
    by (simp add: ex_fit_loop del: fit_loop.simps)
qed









lemma ex_tested2_svca: "the (varm ex_tested2 ''svca'') = ex_params"
  by (simp add: ex_tested2_def persist_def Let_def)

lemma ex_multiple_assign_row:
  "ex_multiple_assign (c # cs) [(''lengthscales'', v), (''periods'', w)] =
     Inr (c\<lparr>lengthscales := (lengthscales c)\<lparr>p_value := v\<rparr>, periods := (periods c)\<lparr>p_value := w\<rparr>\<rparr> # cs)"
  by simp

lemma ex_refit_loop:
  assumes "svca_kernel m = c # cs"
  shows "fit_loop ex_env ex_tested2 False [''lengthscales'', ''periods''] m [(''b'', 0), (''a'', Suc 0)] =
     ([SetCurrentGene 0, MultipleAssign [(''lengthscales'', Scalar 1), (''periods'', Scalar 4)],
       Optimize, FractionVariance,
       SetCurrentGene 1, MultipleAssign [(''lengthscales'', Scalar 1), (''periods'', Scalar 4)],
       Optimize, FractionVariance],
      Inr ex_fit_rows)"
  using assms
  by (simp add: switch_gene_def ex_tested2_svca ex_params_def ex_env_simps ex_fraction_variance
      fracvars.defs ex_fit_rows_def Let_def)

lemma ex_fit_kernel2: "fit_kernel env d ard trainable 2 =
  [fit_component env (if ard then Vector (replicate d 1) else Scalar 1) (if ard then Vector (replicate d 1) else Scalar 1) trainable,
   fit_component env (if ard then Vector (replicate d 1) else Scalar 1) (if ard then Vector (replicate d 1) else Scalar 1) trainable]"
  by (simp add: fit_kernel_def Let_def upt_rec)

lemma ex_refit_run:
  "fit_spatial_interactions ex_env ex_tested2 None ''spatial'' 0 False None =
     ([Warn NoGenesWarning, NewSpectral, NewSpectral, NewSpectralMixture, NewSVCA,
       UseInteractions True, NewOptimizer,
       SetCurrentGene 0, MultipleAssign [(''lengthscales'', Scalar 1), (''periods'', Scalar 4)],
       Optimize, FractionVariance,
       SetCurrentGene 1, MultipleAssign [(''lengthscales'', Scalar 1), (''periods'', Scalar 4)],
       Optimize, FractionVariance],
      Inr ex_fit_rows)"
proof -
  have x: "obsm ex_tested2 ''spatial'' = Some [[0, 0], [1, 0], [0, 1]]"
    by (simp add: ex_tested2_def persist_def ex_adata_def Let_def)
  have idx: "gene_indices (var_names ex_tested2) [''b'', ''a''] = Inr [0, 1]"
    by (simp add: ex_tested2_def persist_def ex_adata_def ex_gene_indices Let_def)
  have names: "dtype_names (the (varm ex_tested2 ''svca'')) = [''lengthscales'', ''periods'']"
    by (simp add: ex_tested2_svca ex_params_def)
  show ?thesis
    using fit_unfold [where env = ex_env and ncomponents = 0 and ard = False and sf = None, OF ex_fit_mode_refit(1) x idx]
    by (simp add: names ex_refit_loop ex_fit_kernel2 use_interactions_def SVCA_def
        numeral_2_eq_2 del: fit_loop.simps)
qed

lemma fit_mode_refit_ignores_arguments:
  assumes "\<not> (varm adata ''svca'' = None \<or> obsm adata ''svca_sizefactors'' = None \<or>
              uns adata ''svca_ncomponents'' = None \<or> uns adata ''svca_ard'' = None)"
  shows "fit_mode env adata genes ncomponents ard sf = fit_mode env adata genes ncomponents' ard' sf'"
  using assms by (auto simp: fit_mode_def)

lemma fit_mode_clamps:
  assumes "varm adata ''svca'' = None \<or> obsm adata ''svca_sizefactors'' = None \<or>
           uns adata ''svca_ncomponents'' = None \<or> uns adata ''svca_ard'' = None"
    and "ncomponents < 1"
  shows "fit_mode env adata genes ncomponents ard sf =
           ([Warn AbInitioWarning, Warn (NcomponentsWarning ncomponents)],
            (case genes of None \<Rightarrow> var_names adata | Some gs \<Rightarrow> gs),
            (case sf of None \<Rightarrow> calc_sizefactors env adata | Some s \<Rightarrow> s), 1, ard, True)"
    and "fit_mode env adata genes 1 ard sf =
           ([Warn AbInitioWarning],
            (case genes of None \<Rightarrow> var_names adata | Some gs \<Rightarrow> gs),
            (case sf of None \<Rightarrow> calc_sizefactors env adata | Some s \<Rightarrow> s), 1, ard, True)"
  using assms by (auto simp: fit_mode_def Let_def)

text \<open>
  C4, as the code has it. In \<^verbatim>\<open>test_spatial_interactions\<close>, and in
  \<^verbatim>\<open>fit_spatial_interactions\<close> when the persisted state is not found, a call with
  \<^verbatim>\<open>ncomponents < 1\<close> is the call with \<^verbatim>\<open>ncomponents = 1\<close> plus one warning: the same
  result, so no error on account of the argument. When \<^verbatim>\<open>fit_spatial_interactions\<close>
  finds the persisted state, the argument is not read at all.
\<close>

theorem C4_ncomponents_clamped_with_warning:
  "(ncomponents < 1 \<longrightarrow>
      test_spatial_interactions env h r spatial_key ncomponents ard sf copy =
        (case test_spatial_interactions env h r spatial_key 1 ard sf copy of
           (evs, res) \<Rightarrow> (Warn (NcomponentsWarning ncomponents) # evs, res))) \<and>
   (ncomponents < 1 \<and>
    (varm adata ''svca'' = None \<or> obsm adata ''svca_sizefactors'' = None \<or>
     uns adata ''svca_ncomponents'' = None \<or> uns adata ''svca_ard'' = None) \<longrightarrow>
      fit_spatial_interactions env adata genes spatial_key ncomponents ard sf =
        (case fit_spatial_interactions env adata genes spatial_key 1 ard sf of
           (evs, res) \<Rightarrow> (Warn AbInitioWarning # Warn (NcomponentsWarning ncomponents) # tl evs, res))) \<and>
   (\<not> (varm adata ''svca'' = None \<or> obsm adata ''svca_sizefactors'' = None \<or>
        uns adata ''svca_ncomponents'' = None \<or> uns adata ''svca_ard'' = None) \<longrightarrow>
      fit_spatial_interactions env adata genes spatial_key ncomponents ard sf =
      fit_spatial_interactions env adata genes spatial_key 1 ard sf)"
proof (intro conjI impI)
  assume "ncomponents < 1"
  then show "test_spatial_interactions env h r spatial_key ncomponents ard sf copy =
        (case test_spatial_interactions env h r spatial_key 1 ard sf copy of
           (evs, res) \<Rightarrow> (Warn (NcomponentsWarning ncomponents) # evs, res))"
    unfolding test_spatial_interactions_def Let_def
    by (simp split: option.splits sum.splits prod.splits)
next
  assume a: "ncomponents < 1 \<and>
    (varm adata ''svca'' = None \<or> obsm adata ''svca_sizefactors'' = None \<or>
     uns adata ''svca_ncomponents'' = None \<or> uns adata ''svca_ard'' = None)"
  then have m: "fit_mode env adata genes ncomponents ard sf =
           ([Warn AbInitioWarning, Warn (NcomponentsWarning ncomponents)],
            (case genes of None \<Rightarrow> var_names adata | Some gs \<Rightarrow> gs),
            (case sf of None \<Rightarrow> calc_sizefactors env adata | Some s \<Rightarrow> s), 1, ard, True)"
    and m1: "fit_mode env adata genes 1 ard sf =
           ([Warn AbInitioWarning],
            (case genes of None \<Rightarrow> var_names adata | Some gs \<Rightarrow> gs),
            (case sf of None \<Rightarrow> calc_sizefactors env adata | Some s \<Rightarrow> s), 1, ard, True)"
    using fit_mode_clamps [of adata ncomponents env genes ard sf] by blast+
  show "fit_spatial_interactions env adata genes spatial_key ncomponents ard sf =
        (case fit_spatial_interactions env adata genes spatial_key 1 ard sf of
           (evs, res) \<Rightarrow> (Warn AbInitioWarning # Warn (NcomponentsWarning ncomponents) # tl evs, res))"
    unfolding fit_spatial_interactions_def m m1 Let_def
    by (simp split: option.splits sum.splits prod.splits del: fit_loop.simps)
next
  assume "\<not> (varm adata ''svca'' = None \<or> obsm adata ''svca_sizefactors'' = None \<or>
        uns adata ''svca_ncomponents'' = None \<or> uns adata ''svca_ard'' = None)"
  then have "fit_mode env adata genes ncomponents ard sf = fit_mode env adata genes 1 ard sf"
    by (rule fit_mode_refit_ignores_arguments)
  then show "fit_spatial_interactions env adata genes spatial_key ncomponents ard sf =
      fit_spatial_interactions env adata genes spatial_key 1 ard sf"
    unfolding fit_spatial_interactions_def by simp
qed

theorem C4_witness:
  "test_spatial_interactions ex_env [ex_adata] 0 ''spatial'' 0 False None False =
     (Warn (NcomponentsWarning 0) # ex_test_events, Inr (ex_results, None, [ex_tested])) \<and>
   fit_spatial_interactions ex_env ex_adata None ''spatial'' (- 1) False None =
     ([Warn AbInitioWarning, Warn (NcomponentsWarning (- 1)), NewSpectral, NewSpectralMixture,
       NewSVCA, UseInteractions True, NewOptimizer, SetCurrentGene 0, Optimize, FractionVariance,
       SetCurrentGene 1, Optimize, FractionVariance],
      Inr ex_fit_rows)"
proof -
  have a: "(0::int) < 1" by simp
  have b: "(- 1::int) < 1 \<and>
    (varm ex_adata ''svca'' = None \<or> obsm ex_adata ''svca_sizefactors'' = None \<or>
     uns ex_adata ''svca_ncomponents'' = None \<or> uns ex_adata ''svca_ard'' = None)"
    by (simp add: ex_adata_def)
  from C4_ncomponents_clamped_with_warning [THEN conjunct1, THEN mp, OF a,
      of ex_env "[ex_adata]" 0 "''spatial''" False None False]
  have 1: "test_spatial_interactions ex_env [ex_adata] 0 ''spatial'' 0 False None False =
     (Warn (NcomponentsWarning 0) # ex_test_events, Inr (ex_results, None, [ex_tested]))"
    by (simp add: ex_test_run)
  from C4_ncomponents_clamped_with_warning [THEN conjunct2, THEN conjunct1, THEN mp, OF b,
      of ex_env None "''spatial''" False None]
  have 2: "fit_spatial_interactions ex_env ex_adata None ''spatial'' (- 1) False None =
     ([Warn AbInitioWarning, Warn (NcomponentsWarning (- 1)), NewSpectral, NewSpectralMixture,
       NewSVCA, UseInteractions True, NewOptimizer, SetCurrentGene 0, Optimize, FractionVariance,
       SetCurrentGene 1, Optimize, FractionVariance],
      Inr ex_fit_rows)"
    by (simp add: ex_fit_run)
  from 1 2 show ?thesis ..
qed

text \<open>
  The specification's sentence fails where the persisted state is found: with the argument 0 the call emits no
  warning about it, and the kernel has the two components of the persisted count, not one.
\<close>

theorem C4_counterexample:
  "fit_spatial_interactions ex_env ex_tested2 None ''spatial'' 0 False None =
     ([Warn NoGenesWarning, NewSpectral, NewSpectral, NewSpectralMixture, NewSVCA,
       UseInteractions True, NewOptimizer,
       SetCurrentGene 0, MultipleAssign [(''lengthscales'', Scalar 1), (''periods'', Scalar 4)],
       Optimize, FractionVariance,
       SetCurrentGene 1, MultipleAssign [(''lengthscales'', Scalar 1), (''periods'', Scalar 4)],
       Optimize, FractionVariance],
      Inr ex_fit_rows)"
  by (rule ex_refit_run)

section \<open>The geometric grid and the bounded transform\<close>

lemma geomspace_point:
  assumes a: "0 < a"
  shows "10 powr (log 10 a + real i * s) = a * (10 powr s) ^ i"
proof -
  have "10 powr (log 10 a + real i * s) = 10 powr (log 10 a) * 10 powr (s * real i)"
    by (simp add: powr_add mult.commute)
  also have "10 powr (log 10 a) = a"
    using a by simp
  also have "10 powr (s * real i) = (10 powr s) powr (real i)"
    by (simp add: powr_powr)
  also have "\<dots> = (10 powr s) ^ i"
    by (simp add: powr_realpow)
  finally show ?thesis .
qed

lemma geomspace_last:
  assumes a: "0 < a" and b: "0 < b" and n: "1 < n"
  shows "a * (10 powr ((log 10 b - log 10 a) / real (n - 1))) ^ (n - 1) = b"
proof -
  have "(10 powr ((log 10 b - log 10 a) / real (n - 1))) ^ (n - 1) =
          (10 powr ((log 10 b - log 10 a) / real (n - 1))) powr real (n - 1)"
    by (simp add: powr_realpow)
  also have "\<dots> = 10 powr (log 10 b - log 10 a)"
    using n by (simp add: powr_powr)
  also have "\<dots> = b / a"
    using a b by (simp add: powr_diff)
  finally show ?thesis
    using a by simp
qed

lemma geomspace_geometric:
  assumes a: "0 < a" and b: "0 < b"
  shows "\<exists>ls q. geomspace a b n = Inr ls \<and> length ls = n \<and> 0 < q \<and>
           (\<forall>i<n. ls ! i = a * q ^ i) \<and> (1 < n \<longrightarrow> a * q ^ (n - 1) = b)"
proof -
  define s where "s = (log 10 b - log 10 a) / real (n - 1)"
  define q :: real where "q = 10 powr s"
  define r0 where "r0 = map (\<lambda>i. 10 powr (log 10 a + real i * s)) [0..<n]"
  define r1 where "r1 = (if 0 < n then r0[0 := a] else r0)"
  define r2 where "r2 = (if 1 < n then r1[n - 1 := b] else r1)"
  have g: "geomspace a b n = Inr r2"
    using a b by (simp add: geomspace_def Let_def r2_def r1_def r0_def s_def)
  have len: "length r2 = n"
    by (simp add: r2_def r1_def r0_def)
  have q: "0 < q"
    by (simp add: q_def)
  have last: "1 < n \<longrightarrow> a * q ^ (n - 1) = b"
    using geomspace_last [OF a b] by (simp add: q_def s_def)
  have r0: "r0 ! i = a * q ^ i" if "i < n" for i
    using that by (simp add: r0_def q_def geomspace_point [OF a])
  have r1: "r1 ! i = a * q ^ i" if "i < n" for i
    using that r0 [OF that] by (cases "i = 0") (simp_all add: r1_def r0_def)
  have r2: "r2 ! i = a * q ^ i" if "i < n" for i
  proof (cases "1 < n \<and> i = n - 1")
    case True
    then have "r2 ! i = b"
      by (simp add: r2_def r1_def r0_def)
    then show ?thesis
      using True last by simp
  next
    case False
    then have "r2 ! i = r1 ! i"
      by (auto simp: r2_def)
    then show ?thesis
      using r1 [OF that] by simp
  qed
  from g len q r2 last show ?thesis
    by blast
qed

lemma test_component_fields:
  "p_value (lengthscales (test_component l_min l_max d ard l)) =
     (if ard then Vector (replicate d l) else Scalar l)"
  "p_value (periods (test_component l_min l_max d ard l)) =
     (if ard then Vector (replicate d l_max) else Scalar l_max)"
  "p_transform (lengthscales (test_component l_min l_max d ard l)) = Sigmoid (0.5 * l_min) (2 * l_max)"
  "p_transform (periods (test_component l_min l_max d ard l)) = Sigmoid (0.5 * l_min) (2 * l_max)"
  "p_trainable (variance (test_component l_min l_max d ard l)) = False"
  "p_value (variance (test_component l_min l_max d ard l)) = Scalar 1"
  by (simp_all add: test_component_def Spectral_def set_trainable_def Let_def)

lemma fit_component_fields:
  "p_value (lengthscales (fit_component env ls ps trainable)) = ls"
  "p_value (periods (fit_component env ls ps trainable)) = ps"
  "p_transform (lengthscales (fit_component env ls ps trainable)) = ConstructorDefault"
  "p_transform (periods (fit_component env ls ps trainable)) = ConstructorDefault"
  "p_trainable (lengthscales (fit_component env ls ps trainable)) = trainable"
  "p_trainable (periods (fit_component env ls ps trainable)) = trainable"
  "p_trainable (variance (fit_component env ls ps trainable)) = False"
  by (simp_all add: fit_component_def Spectral_def set_trainable_def Let_def)

lemma fit_kernel_components:
  assumes "k \<in> set (fit_kernel env d ard trainable n)"
  shows "k = fit_component env (if ard then Vector (replicate d 1) else Scalar 1)
               (if ard then Vector (replicate d 1) else Scalar 1) trainable"
  using assms by (auto simp: fit_kernel_def Let_def)

lemma test_run_kernel:
  assumes run: "test_spatial_interactions env h r spatial_key ncomponents ard sf copy =
                  (evs, Inr (results, toreturn, h'))"
  shows "\<exists>x mixture sf' evs' rows params.
           obsm (h ! r) spatial_key = Some x \<and>
           test_kernel (fst (get_l_limits env x)) (snd (get_l_limits env x)) (shape1 x) ard
             (if ncomponents < 1 then 1 else ncomponents) = Inr mixture \<and>
           score_loop env (sorted_keys (read_values env mixture))
             \<lparr>st_expression = adata_X (h ! r), st_coords = x, st_sizefactors = sf', st_kernel = mixture\<rparr>
             (enumerate 0 (var_names (h ! r))) = (evs', Inr (rows, params))"
proof -
  from test_run_Inr [OF run] obtain x l_min l_max mixture evs' rows params sf' where
    "obsm (h ! r) spatial_key = Some x"
    "get_l_limits env x = (l_min, l_max)"
    "test_kernel l_min l_max (shape1 x) ard (if ncomponents < 1 then 1 else ncomponents) = Inr mixture"
    "score_loop env (sorted_keys (read_values env mixture))
             \<lparr>st_expression = adata_X (h ! r), st_coords = x, st_sizefactors = sf', st_kernel = mixture\<rparr>
             (enumerate 0 (var_names (h ! r))) = (evs', Inr (rows, params))"
    by blast
  then show ?thesis
    by (intro exI [of _ x] exI [of _ mixture] exI [of _ sf'] exI [of _ evs'] exI [of _ rows]
        exI [of _ params]) simp
qed

text \<open>
  C5, as the code has it. For positive limits the kernel of \<^verbatim>\<open>test_spatial_interactions\<close>
  has \<^verbatim>\<open>ncomponents\<close> components whose length-scales are the terms
  \<open>l_min * q ^ i\<close> of a geometric progression that starts at \<open>l_min\<close> and, with more than
  one component, ends at \<open>l_max\<close>; every period starts at \<open>l_max\<close>. Every run that returns
  has built its score test on that kernel, for the limits of its coordinates and the clamped
  count. In \<^verbatim>\<open>fit_spatial_interactions\<close> every length-scale and every period starts at 1.
\<close>

theorem C5_geometric_lengthscales:
  "(0 < l_min \<and> 0 < l_max \<longrightarrow>
      (\<exists>ks q. test_kernel l_min l_max d ard ncomponents = Inr ks \<and>
         length ks = nat ncomponents \<and> 0 < q \<and>
         (\<forall>i<nat ncomponents.
            p_value (lengthscales (ks ! i)) =
              (if ard then Vector (replicate d (l_min * q ^ i)) else Scalar (l_min * q ^ i)) \<and>
            p_value (periods (ks ! i)) =
              (if ard then Vector (replicate d l_max) else Scalar l_max)) \<and>
         (1 < nat ncomponents \<longrightarrow> l_min * q ^ (nat ncomponents - 1) = l_max))) \<and>
   (test_spatial_interactions env h r spatial_key ncomponents ard sf copy =
      (evs, Inr (results, toreturn, h')) \<longrightarrow>
      (\<exists>x mixture sf' evs' rows params.
         obsm (h ! r) spatial_key = Some x \<and>
         test_kernel (fst (get_l_limits env x)) (snd (get_l_limits env x)) (shape1 x) ard
           (if ncomponents < 1 then 1 else ncomponents) = Inr mixture \<and>
         score_loop env (sorted_keys (read_values env mixture))
           \<lparr>st_expression = adata_X (h ! r), st_coords = x, st_sizefactors = sf', st_kernel = mixture\<rparr>
           (enumerate 0 (var_names (h ! r))) = (evs', Inr (rows, params)))) \<and>
   (\<forall>k\<in>set (fit_kernel env d ard trainable ncomponents).
      p_value (lengthscales k) = (if ard then Vector (replicate d 1) else Scalar 1) \<and>
      p_value (periods k) = (if ard then Vector (replicate d 1) else Scalar 1))"
proof (intro conjI impI ballI)
  assume pos: "0 < l_min \<and> 0 < l_max"
  from geomspace_geometric [of l_min l_max "nat ncomponents"] pos
  obtain ls q where g: "geomspace l_min l_max (nat ncomponents) = Inr ls"
    and len: "length ls = nat ncomponents" and q: "0 < q"
    and pts: "\<forall>i<nat ncomponents. ls ! i = l_min * q ^ i"
    and last: "1 < nat ncomponents \<longrightarrow> l_min * q ^ (nat ncomponents - 1) = l_max"
    by blast
  have k: "test_kernel l_min l_max d ard ncomponents = Inr (map (test_component l_min l_max d ard) ls)"
    by (simp add: test_kernel_def g)
  show "\<exists>ks q. test_kernel l_min l_max d ard ncomponents = Inr ks \<and>
         length ks = nat ncomponents \<and> 0 < q \<and>
         (\<forall>i<nat ncomponents.
            p_value (lengthscales (ks ! i)) =
              (if ard then Vector (replicate d (l_min * q ^ i)) else Scalar (l_min * q ^ i)) \<and>
            p_value (periods (ks ! i)) =
              (if ard then Vector (replicate d l_max) else Scalar l_max)) \<and>
         (1 < nat ncomponents \<longrightarrow> l_min * q ^ (nat ncomponents - 1) = l_max)"
    using k len q pts last
    by (intro exI [of _ "map (test_component l_min l_max d ard) ls"] exI [of _ q])
      (simp add: test_component_fields)
next
  assume "test_spatial_interactions env h r spatial_key ncomponents ard sf copy =
      (evs, Inr (results, toreturn, h'))"
  then show "\<exists>x mixture sf' evs' rows params.
         obsm (h ! r) spatial_key = Some x \<and>
         test_kernel (fst (get_l_limits env x)) (snd (get_l_limits env x)) (shape1 x) ard
           (if ncomponents < 1 then 1 else ncomponents) = Inr mixture \<and>
         score_loop env (sorted_keys (read_values env mixture))
           \<lparr>st_expression = adata_X (h ! r), st_coords = x, st_sizefactors = sf', st_kernel = mixture\<rparr>
           (enumerate 0 (var_names (h ! r))) = (evs', Inr (rows, params))"
    by (rule test_run_kernel)
next
  fix k assume "k \<in> set (fit_kernel env d ard trainable ncomponents)"
  from fit_kernel_components [OF this]
  show "p_value (lengthscales k) = (if ard then Vector (replicate d 1) else Scalar 1)"
    and "p_value (periods k) = (if ard then Vector (replicate d 1) else Scalar 1)"
    by (simp_all add: fit_component_fields)
qed

theorem C5_witness:
  "(0::real) < 1 \<and> (0::real) < 4 \<and>
   (\<exists>ks. test_kernel 1 4 2 False 2 = Inr ks \<and> length ks = 2 \<and>
      p_value (lengthscales (ks ! 0)) = Scalar 1 \<and>
      p_value (lengthscales (ks ! 1)) = Scalar 4)"
proof -
  have pos: "(0::real) < 1 \<and> (0::real) < 4" by simp
  from C5_geometric_lengthscales [THEN conjunct1, THEN mp, OF pos, of 2 False 2]
  obtain ks q where k: "test_kernel 1 4 2 False 2 = Inr ks" and len: "length ks = 2"
    and pts: "\<forall>i<2. p_value (lengthscales (ks ! i)) = Scalar (1 * q ^ i)"
    and last: "1 * q ^ (2 - 1) = (4::real)"
    by auto
  from pts have "p_value (lengthscales (ks ! 0)) = Scalar 1"
    and "p_value (lengthscales (ks ! 1)) = Scalar (q ^ 1)"
    by simp_all
  with k len last show ?thesis
    by simp
qed

text \<open>
  The specification's sentence fails in \<^verbatim>\<open>fit_spatial_interactions\<close>: for two components on the
  data set, whose limits are 1 and 4, the length-scales start at 1 and 1, where the
  geometric grid is 1 and 4.
\<close>

theorem C5_counterexample:
  "map (\<lambda>k. p_value (lengthscales k)) (fit_kernel ex_env 2 False True 2) = [Scalar 1, Scalar 1] \<and>
   get_l_limits ex_env [[0, 0], [1, 0], [0, 1]] = (1, 4) \<and>
   geomspace 1 4 2 = Inr [1, 4]"
  by (simp add: ex_fit_kernel2 fit_component_fields ex_env_simps geomspace_def upt_rec)

lemma logistic_bounds: "0 < 1 / (1 + exp (- u :: real))" "1 / (1 + exp (- u :: real)) < 1"
proof -
  have "0 < exp (- u)" by simp
  then show "0 < 1 / (1 + exp (- u))" by (simp add: add_pos_pos)
  have "1 < 1 + exp (- u)" by simp
  then show "1 / (1 + exp (- u)) < 1" by (simp add: add_pos_pos)
qed

lemma logistic_mono: "u \<le> v \<Longrightarrow> 1 / (1 + exp (- u :: real)) \<le> 1 / (1 + exp (- v))"
  by (intro divide_left_mono mult_pos_pos add_pos_pos) simp_all

lemma logistic_strict_mono: "u < v \<Longrightarrow> 1 / (1 + exp (- u :: real)) < 1 / (1 + exp (- v))"
  by (intro divide_strict_left_mono mult_pos_pos add_pos_pos) simp_all

lemma sigmoid_forward_bounds:
  assumes "low \<le> high"
  shows "low \<le> sigmoid_forward low high u" and "sigmoid_forward low high u \<le> high"
proof -
  let ?s = "1 / (1 + exp (- u))"
  have s: "0 \<le> ?s" "?s \<le> 1"
    using logistic_bounds [of u] by simp_all
  have "0 \<le> (high - low) * ?s"
    using assms s by (intro mult_nonneg_nonneg) simp_all
  then show "low \<le> sigmoid_forward low high u"
    by (simp add: sigmoid_forward_def)
  have "(high - low) * ?s \<le> (high - low) * 1"
    using assms s by (intro mult_left_mono) simp_all
  then show "sigmoid_forward low high u \<le> high"
    by (simp add: sigmoid_forward_def)
qed

lemma sigmoid_forward_mono:
  assumes "low \<le> high" and "u \<le> v"
  shows "sigmoid_forward low high u \<le> sigmoid_forward low high v"
proof -
  have "(high - low) * (1 / (1 + exp (- u))) \<le> (high - low) * (1 / (1 + exp (- v)))"
    using assms logistic_mono [of u v] by (intro mult_left_mono) simp_all
  then show ?thesis
    by (simp add: sigmoid_forward_def)
qed

lemma sigmoid_forward_strict:
  assumes "low < high"
  shows "low < sigmoid_forward low high u" and "sigmoid_forward low high u < high"
    and "u < v \<Longrightarrow> sigmoid_forward low high u < sigmoid_forward low high v"
proof -
  let ?s = "1 / (1 + exp (- u))"
  have s: "0 < ?s" "?s < 1"
    using logistic_bounds [of u] by simp_all
  have "0 < (high - low) * ?s"
    using assms s by (intro mult_pos_pos) simp_all
  then show "low < sigmoid_forward low high u"
    by (simp add: sigmoid_forward_def)
  have "(high - low) * ?s < (high - low) * 1"
    using assms s by (intro mult_strict_left_mono) simp_all
  then show "sigmoid_forward low high u < high"
    by (simp add: sigmoid_forward_def)
  assume "u < v"
  then have "(high - low) * (1 / (1 + exp (- u))) < (high - low) * (1 / (1 + exp (- v)))"
    using assms logistic_strict_mono [of u v] by (intro mult_strict_left_mono) simp_all
  then show "sigmoid_forward low high u < sigmoid_forward low high v"
    by (simp add: sigmoid_forward_def)
qed

text \<open>
  C6, as the code has it. Every component of the kernel of \<^verbatim>\<open>test_spatial_interactions\<close>
  carries, on its length-scale and on its period, the sigmoid transform with
  \<open>low = 0.5 * l_min\<close> and \<open>high = 2 * l_max\<close>, and every run that returns has built its
  score test on that kernel. When \<open>low \<le> high\<close> the transform maps every raw value into
  \<open>[low, high]\<close> and is monotonic; when \<open>low < high\<close> strictly so. The components built by
  \<^verbatim>\<open>fit_spatial_interactions\<close> keep the transform of the \<^verbatim>\<open>Spectral\<close> constructor: the
  function attaches none.
\<close>

theorem C6_bounded_transform:
  "(test_kernel l_min l_max d ard ncomponents = Inr ks \<longrightarrow>
      (\<forall>k\<in>set ks.
         p_transform (lengthscales k) = Sigmoid (0.5 * l_min) (2 * l_max) \<and>
         p_transform (periods k) = Sigmoid (0.5 * l_min) (2 * l_max))) \<and>
   (test_spatial_interactions env h r spatial_key ncomponents ard sf copy =
      (evs, Inr (results, toreturn, h')) \<longrightarrow>
      (\<exists>x mixture sf' evs' rows params.
         obsm (h ! r) spatial_key = Some x \<and>
         test_kernel (fst (get_l_limits env x)) (snd (get_l_limits env x)) (shape1 x) ard
           (if ncomponents < 1 then 1 else ncomponents) = Inr mixture \<and>
         score_loop env (sorted_keys (read_values env mixture))
           \<lparr>st_expression = adata_X (h ! r), st_coords = x, st_sizefactors = sf', st_kernel = mixture\<rparr>
           (enumerate 0 (var_names (h ! r))) = (evs', Inr (rows, params)))) \<and>
   (0.5 * l_min \<le> 2 * l_max \<longrightarrow>
      0.5 * l_min \<le> sigmoid_forward (0.5 * l_min) (2 * l_max) u \<and>
      sigmoid_forward (0.5 * l_min) (2 * l_max) u \<le> 2 * l_max \<and>
      (u \<le> v \<longrightarrow>
         sigmoid_forward (0.5 * l_min) (2 * l_max) u \<le> sigmoid_forward (0.5 * l_min) (2 * l_max) v)) \<and>
   (0.5 * l_min < 2 * l_max \<longrightarrow>
      0.5 * l_min < sigmoid_forward (0.5 * l_min) (2 * l_max) u \<and>
      sigmoid_forward (0.5 * l_min) (2 * l_max) u < 2 * l_max \<and>
      (u < v \<longrightarrow>
         sigmoid_forward (0.5 * l_min) (2 * l_max) u < sigmoid_forward (0.5 * l_min) (2 * l_max) v)) \<and>
   (\<forall>k\<in>set (fit_kernel env d ard trainable ncomponents).
      p_transform (lengthscales k) = ConstructorDefault \<and>
      p_transform (periods k) = ConstructorDefault)"
proof (intro conjI impI ballI)
  fix k
  assume "test_kernel l_min l_max d ard ncomponents = Inr ks" and "k \<in> set ks"
  then obtain l where "k = test_component l_min l_max d ard l"
    by (auto simp: test_kernel_def split: sum.splits)
  then show "p_transform (lengthscales k) = Sigmoid (0.5 * l_min) (2 * l_max)"
    and "p_transform (periods k) = Sigmoid (0.5 * l_min) (2 * l_max)"
    by (simp_all add: test_component_fields)
next
  assume "test_spatial_interactions env h r spatial_key ncomponents ard sf copy =
      (evs, Inr (results, toreturn, h'))"
  then show "\<exists>x mixture sf' evs' rows params.
         obsm (h ! r) spatial_key = Some x \<and>
         test_kernel (fst (get_l_limits env x)) (snd (get_l_limits env x)) (shape1 x) ard
           (if ncomponents < 1 then 1 else ncomponents) = Inr mixture \<and>
         score_loop env (sorted_keys (read_values env mixture))
           \<lparr>st_expression = adata_X (h ! r), st_coords = x, st_sizefactors = sf', st_kernel = mixture\<rparr>
           (enumerate 0 (var_names (h ! r))) = (evs', Inr (rows, params))"
    by (rule test_run_kernel)
next
  assume le: "0.5 * l_min \<le> 2 * l_max"
  show "0.5 * l_min \<le> sigmoid_forward (0.5 * l_min) (2 * l_max) u"
    by (rule sigmoid_forward_bounds(1) [OF le])
  show "sigmoid_forward (0.5 * l_min) (2 * l_max) u \<le> 2 * l_max"
    by (rule sigmoid_forward_bounds(2) [OF le])
  assume "u \<le> v"
  then show "sigmoid_forward (0.5 * l_min) (2 * l_max) u \<le> sigmoid_forward (0.5 * l_min) (2 * l_max) v"
    by (rule sigmoid_forward_mono [OF le])
next
  assume lt: "0.5 * l_min < 2 * l_max"
  show "0.5 * l_min < sigmoid_forward (0.5 * l_min) (2 * l_max) u"
    by (rule sigmoid_forward_strict(1) [OF lt])
  show "sigmoid_forward (0.5 * l_min) (2 * l_max) u < 2 * l_max"
    by (rule sigmoid_forward_strict(2) [OF lt])
  assume "u < v"
  then show "sigmoid_forward (0.5 * l_min) (2 * l_max) u < sigmoid_forward (0.5 * l_min) (2 * l_max) v"
    by (rule sigmoid_forward_strict(3) [OF lt])
next
  fix k assume "k \<in> set (fit_kernel env d ard trainable ncomponents)"
  from fit_kernel_components [OF this]
  show "p_transform (lengthscales k) = ConstructorDefault"
    and "p_transform (periods k) = ConstructorDefault"
    by (simp_all add: fit_component_fields)
qed

theorem C6_witness:
  "(0.5::real) * 1 \<le> 2 * 4 \<and>
   sigmoid_forward (0.5 * 1) (2 * 4) 0 = 17 / 4 \<and>
   0.5 * 1 \<le> sigmoid_forward (0.5 * 1) (2 * 4) 0 \<and>
   sigmoid_forward (0.5 * 1) (2 * 4) 0 \<le> 2 * 4 \<and>
   p_transform (lengthscales (hd (st_kernel ex_test))) = Sigmoid (0.5 * 1) (2 * 4)"
proof -
  have le: "(0.5::real) * 1 \<le> 2 * 4" by simp
  have k: "test_kernel 1 4 2 False 1 = Inr (st_kernel ex_test)"
    by (simp add: ex_test_kernel ex_test_def)
  have mem: "hd (st_kernel ex_test) \<in> set (st_kernel ex_test)"
    by (simp add: ex_test_def)
  from C6_bounded_transform
    [THEN conjunct2, THEN conjunct2, THEN conjunct1, THEN mp, OF le, of 0]
  have 1: "0.5 * 1 \<le> sigmoid_forward (0.5 * 1) (2 * 4) 0 \<and>
           sigmoid_forward (0.5 * 1) (2 * 4) 0 \<le> 2 * 4"
    by blast
  from C6_bounded_transform [THEN conjunct1, THEN mp, OF k] mem
  have 2: "p_transform (lengthscales (hd (st_kernel ex_test))) = Sigmoid (0.5 * 1) (2 * 4)"
    by blast
  have 3: "sigmoid_forward (0.5 * 1) (2 * 4) 0 = 17 / 4"
    by (simp add: sigmoid_forward_def)
  from le 1 2 3 show ?thesis
    by blast
qed

text \<open>
  The specification's sentence fails in \<^verbatim>\<open>fit_spatial_interactions\<close>: on the data set, whose limits are 1 and
  4, the component it builds has the constructor's transform on its length-scale and on its
  period, not the sigmoid transform between 0.5 and 8.
\<close>

theorem C6_counterexample:
  "p_transform (lengthscales (hd (fit_kernel ex_env 2 False True 1))) = ConstructorDefault \<and>
   p_transform (periods (hd (fit_kernel ex_env 2 False True 1))) = ConstructorDefault \<and>
   get_l_limits ex_env [[0, 0], [1, 0], [0, 1]] = (1, 4) \<and>
   p_transform (lengthscales (hd (fit_kernel ex_env 2 False True 1))) \<noteq> Sigmoid (0.5 * 1) (2 * 4)"
  by (simp add: fit_kernel_def fit_component_fields ex_env_simps Let_def)

section \<open>The lookup of the columns\<close>

lemma searchsorted_finds:
  assumes "sorted (map f idx)" and "g \<in> f ` set idx"
  shows "length (takeWhile (\<lambda>i. f i < g) idx) < length idx \<and>
         f (idx ! length (takeWhile (\<lambda>i. f i < g) idx)) = g"
  using assms
proof (induction idx)
  case Nil
  then show ?case by simp
next
  case (Cons i idx)
  show ?case
  proof (cases "f i < g")
    case True
    with Cons.prems have "g \<in> f ` set idx" by auto
    with Cons.IH Cons.prems(1) True show ?thesis by simp
  next
    case False
    from Cons.prems have "f i \<le> g" by auto
    with False show ?thesis by simp
  qed
qed

lemma searchsorted_past_end:
  assumes "\<forall>i\<in>set idx. f i < g"
  shows "length (takeWhile (\<lambda>i. f i < g) idx) = length idx"
  using assms by (metis takeWhile_eq_all_conv)

lemma set_argsort: "set (argsort names) = {0..<length names}"
  by (simp add: argsort_def)

lemma length_argsort: "length (argsort names) = length names"
  by (simp add: argsort_def)

lemma sorted_argsort: "sorted (map (\<lambda>i. names ! i) (argsort names))"
  by (simp add: argsort_def)

lemma names_image_argsort: "(\<lambda>i. names ! i) ` set (argsort names) = set names"
proof -
  have "(\<lambda>i. names ! i) ` set (argsort names) = set (map (\<lambda>i. names ! i) [0..<length names])"
    by (simp add: set_argsort)
  also have "\<dots> = set names"
    by (simp only: map_nth)
  finally show ?thesis .
qed

lemma argsort_nth_less: "p < length (argsort names) \<Longrightarrow> argsort names ! p < length names"
  using set_argsort [of names] nth_mem [of p "argsort names"] by auto

lemma gene_indices_present:
  assumes "set genes \<subseteq> set names"
  shows "\<exists>idx. gene_indices names genes = Inr idx \<and> length idx = length genes \<and>
           (\<forall>k<length genes. idx ! k < length names \<and> names ! (idx ! k) = genes ! k)"
proof -
  let ?a = "argsort names"
  let ?p = "\<lambda>g. searchsorted names g ?a"
  have found: "?p g < length ?a \<and> names ! (?a ! ?p g) = g" if "g \<in> set names" for g
    using searchsorted_finds [of "\<lambda>i. names ! i" ?a g] that
    by (simp add: sorted_argsort names_image_argsort searchsorted_def)
  have all: "list_all (\<lambda>p. p < length ?a) (map ?p genes)"
    using assms found by (auto simp: list_all_iff)
  then have eq: "gene_indices names genes = Inr (map (\<lambda>p. ?a ! p) (map ?p genes))"
    by (simp add: gene_indices_def take_positions_def Let_def)
  have "\<forall>k<length genes. (map (\<lambda>p. ?a ! p) (map ?p genes)) ! k < length names \<and>
          names ! ((map (\<lambda>p. ?a ! p) (map ?p genes)) ! k) = genes ! k"
  proof (intro allI impI)
    fix k assume k: "k < length genes"
    then have "genes ! k \<in> set names" using assms by auto
    from found [OF this] k
    show "(map (\<lambda>p. ?a ! p) (map ?p genes)) ! k < length names \<and>
          names ! ((map (\<lambda>p. ?a ! p) (map ?p genes)) ! k) = genes ! k"
      by (simp add: argsort_nth_less)
  qed
  with eq show ?thesis by simp
qed

lemma current_genes_append: "current_genes (xs @ ys) = current_genes xs @ current_genes ys"
  by (induction xs rule: current_genes.induct) simp_all

lemma current_genes_replicate: "current_genes (replicate n NewSpectral) = []"
  by (induction n) simp_all

lemma switch_gene_events:
  "switch_gene env adata trainable pn model i = (evs, res) \<Longrightarrow> current_genes evs = [i]"
  by (auto simp: switch_gene_def Let_def split: if_splits sum.splits)

lemma fit_loop_step_Inr:
  assumes "fit_loop env adata trainable pn model ((g, i) # ps) = (evs, Inr rows)"
  shows "\<exists>evs1 model1 model2 evs2 rows2.
           switch_gene env adata trainable pn model i = (evs1, Inr model1) \<and>
           optimize env model1 = Inr model2 \<and>
           fit_loop env adata trainable pn model2 ps = (evs2, Inr rows2) \<and>
           evs = evs1 @ [Optimize, FractionVariance] @ evs2 \<and>
           rows = fracvars.extend (fraction_variance env model2)
                    \<lparr>fit_gene = g, fit_time = elapsed env i\<rparr> # rows2"
  using assms
  by (auto simp: Let_def split: sum.splits prod.splits)

lemma fit_loop_current_genes:
  "fit_loop env adata trainable pn model ps = (evs, Inr rows) \<Longrightarrow> current_genes evs = map snd ps"
proof (induction ps arbitrary: model evs rows)
  case Nil
  then show ?case by simp
next
  case (Cons p ps)
  obtain g i where p: "p = (g, i)" by (cases p)
  from fit_loop_step_Inr [OF Cons.prems [unfolded p]]
  obtain evs1 model1 model2 evs2 rows2 where
    sw: "switch_gene env adata trainable pn model i = (evs1, Inr model1)"
    and loop: "fit_loop env adata trainable pn model2 ps = (evs2, Inr rows2)"
    and evs: "evs = evs1 @ [Optimize, FractionVariance] @ evs2"
    by blast
  show ?case
    unfolding p evs
    using switch_gene_events [OF sw] Cons.IH [OF loop]
    by (simp add: current_genes_append)
qed

lemma fit_lookup_fails:
  assumes "fit_mode env adata genes ncomponents ard sf = (emitted, gs, sf', n', ard', trainable)"
    and "obsm adata spatial_key = Some x"
    and "gene_indices (var_names adata) gs = Inl e"
  shows "fit_spatial_interactions env adata genes spatial_key ncomponents ard sf =
           (emitted @ replicate (nat n') NewSpectral @
              [NewSpectralMixture, NewSVCA, UseInteractions True, NewOptimizer], Inl e)"
  using assms
  unfolding fit_spatial_interactions_def Let_def
  by (simp add: length_fit_kernel)

lemma fit_run_current_genes:
  assumes run: "fit_spatial_interactions env adata genes spatial_key ncomponents ard sf = (evs, Inr rows)"
  shows "\<exists>idx. gene_indices (var_names adata) (case genes of None \<Rightarrow> var_names adata | Some g \<Rightarrow> g) = Inr idx \<and>
           current_genes evs = idx \<and>
           map fit_gene rows = (case genes of None \<Rightarrow> var_names adata | Some g \<Rightarrow> g)"
proof -
  from fit_run_Inr [OF run] obtain emitted gs sf' n' ard' trainable x idx evs' where
    mode: "fit_mode env adata genes ncomponents ard sf = (emitted, gs, sf', n', ard', trainable)"
    and idx: "gene_indices (var_names adata) gs = Inr idx"
    and loop: "fit_loop env adata trainable
             (if \<not> trainable then dtype_names (the (varm adata ''svca'')) else [])
             (use_interactions (SVCA (adata_X adata) x sf' (fit_kernel env (shape1 x) ard' trainable n')) True)
             (zip gs idx) = (evs', Inr rows)"
    and evs: "evs = emitted @ replicate (nat n') NewSpectral @
              [NewSpectralMixture, NewSVCA, UseInteractions True, NewOptimizer] @ evs'"
    by blast
  have gs: "gs = (case genes of None \<Rightarrow> var_names adata | Some g \<Rightarrow> g)"
    by (rule fit_mode_genes [OF mode])
  have len: "length idx = length gs"
    by (rule length_gene_indices [OF idx])
  have em: "current_genes emitted = []"
    using mode by (auto simp: fit_mode_def Let_def split: if_splits option.splits)
  have "current_genes evs' = map snd (zip gs idx)"
    by (rule fit_loop_current_genes [OF loop])
  then have 1: "current_genes evs = idx"
    using len em by (simp add: evs current_genes_append current_genes_replicate)
  have "map fit_gene rows = map fst (zip gs idx)"
    by (rule fit_loop_rows [OF loop])
  then have 2: "map fit_gene rows = gs"
    using len by simp
  from idx 1 2 show ?thesis
    unfolding gs by blast
qed

lemma searchsorted_position:
  "searchsorted names g (argsort names) \<le> length (argsort names)"
  by (simp add: searchsorted_def length_takeWhile_le)

lemma searchsorted_end_iff:
  "searchsorted names g (argsort names) = length (argsort names) \<longleftrightarrow> (\<forall>n\<in>set names. n < g)"
proof
  assume "searchsorted names g (argsort names) = length (argsort names)"
  then have "takeWhile (\<lambda>i. names ! i < g) (argsort names) = argsort names"
    unfolding searchsorted_def
    by (metis takeWhile_eq_take take_all order_refl)
  then have "\<forall>i\<in>set (argsort names). names ! i < g"
    by (metis takeWhile_eq_all_conv)
  then have "\<forall>n\<in>(\<lambda>i. names ! i) ` set (argsort names). n < g"
    by blast
  then show "\<forall>n\<in>set names. n < g"
    by (simp only: names_image_argsort)
next
  assume "\<forall>n\<in>set names. n < g"
  then have "\<forall>i\<in>set (argsort names). names ! i < g"
    by (simp add: set_argsort)
  from searchsorted_past_end [of "argsort names" "\<lambda>i. names ! i" g, OF this]
  show "searchsorted names g (argsort names) = length (argsort names)"
    by (simp add: searchsorted_def)
qed

lemma gene_indices_Inl_iff:
  "gene_indices names genes = Inl e \<longleftrightarrow>
     e = IndexError \<and> (\<exists>g\<in>set genes. \<forall>n\<in>set names. n < g)"
proof -
  have "list_all (\<lambda>p. p < length (argsort names))
          (map (\<lambda>g. searchsorted names g (argsort names)) genes) \<longleftrightarrow>
        \<not> (\<exists>g\<in>set genes. \<forall>n\<in>set names. n < g)"
  proof -
    have "searchsorted names g (argsort names) < length (argsort names) \<longleftrightarrow>
            \<not> (\<forall>n\<in>set names. n < g)" for g
      using searchsorted_position [of names g] searchsorted_end_iff [of names g]
      by linarith
    then show ?thesis
      by (simp add: list_all_iff)
  qed
  then show ?thesis
    by (auto simp: gene_indices_def take_positions_def Let_def)
qed

lemma gene_indices_Inr:
  assumes "gene_indices names genes = Inr idx"
  shows "length idx = length genes \<and>
         (\<forall>k<length genes.
            idx ! k < length names \<and>
            (genes ! k \<in> set names \<longrightarrow> names ! (idx ! k) = genes ! k) \<and>
            (genes ! k \<notin> set names \<longrightarrow> names ! (idx ! k) \<noteq> genes ! k))"
proof -
  let ?a = "argsort names"
  let ?p = "\<lambda>g. searchsorted names g ?a"
  from assms have all: "list_all (\<lambda>p. p < length ?a) (map ?p genes)"
    and idx: "idx = map (\<lambda>p. ?a ! p) (map ?p genes)"
    by (auto simp: gene_indices_def take_positions_def Let_def split: if_splits)
  have "idx ! k < length names \<and>
        (genes ! k \<in> set names \<longrightarrow> names ! (idx ! k) = genes ! k) \<and>
        (genes ! k \<notin> set names \<longrightarrow> names ! (idx ! k) \<noteq> genes ! k)"
    if k: "k < length genes" for k
  proof -
    from all k have p: "?p (genes ! k) < length ?a"
      by (simp add: list_all_length)
    have i: "idx ! k = ?a ! ?p (genes ! k)"
      using k by (simp add: idx)
    have lt: "idx ! k < length names"
      unfolding i by (rule argsort_nth_less [OF p])
    have present: "names ! (idx ! k) = genes ! k" if "genes ! k \<in> set names"
      using searchsorted_finds [of "\<lambda>i. names ! i" ?a "genes ! k"] that
      by (simp add: sorted_argsort names_image_argsort searchsorted_def i)
    have absent: "names ! (idx ! k) \<noteq> genes ! k" if "genes ! k \<notin> set names"
      using that lt nth_mem [of "idx ! k" names] by metis
    from lt present absent show ?thesis
      by blast
  qed
  then show ?thesis
    by (simp add: idx)
qed

text \<open>
  C10, as the code has it. Whenever the lookup returns, every requested name that occurs in
  \<^verbatim>\<open>var_names\<close> gets a column that carries that name, and a run that returns has
  pointed the model at exactly the columns of the lookup, gene by gene. When every requested
  name occurs, the lookup returns. A name that does not occur is not looked for as such:
  when the lookup returns, it has silently got the column of another gene; and the lookup
  raises \<^verbatim>\<open>IndexError\<close>, for the whole request, exactly when some requested name is larger
  than every name of \<^verbatim>\<open>var_names\<close>, its position then being past the end of \<^verbatim>\<open>idx\<close>.
\<close>

theorem C10_gene_column_lookup:
  "(gene_indices names genes = Inr idx \<longrightarrow>
      length idx = length genes \<and>
      (\<forall>k<length genes.
         idx ! k < length names \<and>
         (genes ! k \<in> set names \<longrightarrow> names ! (idx ! k) = genes ! k) \<and>
         (genes ! k \<notin> set names \<longrightarrow> names ! (idx ! k) \<noteq> genes ! k))) \<and>
   (set genes \<subseteq> set names \<longrightarrow> (\<exists>idx'. gene_indices names genes = Inr idx')) \<and>
   (gene_indices names genes = Inl e \<longleftrightarrow>
      e = IndexError \<and> (\<exists>g\<in>set genes. \<forall>n\<in>set names. n < g)) \<and>
   (fit_spatial_interactions env adata requested spatial_key ncomponents ard sf = (evs, Inr rows) \<longrightarrow>
      (\<exists>idx'. gene_indices (var_names adata)
                (case requested of None \<Rightarrow> var_names adata | Some g \<Rightarrow> g) = Inr idx' \<and>
         current_genes evs = idx' \<and>
         map fit_gene rows = (case requested of None \<Rightarrow> var_names adata | Some g \<Rightarrow> g)))"
proof (intro conjI impI)
  assume "gene_indices names genes = Inr idx"
  from gene_indices_Inr [OF this]
  show "length idx = length genes"
    and "\<forall>k<length genes.
         idx ! k < length names \<and>
         (genes ! k \<in> set names \<longrightarrow> names ! (idx ! k) = genes ! k) \<and>
         (genes ! k \<notin> set names \<longrightarrow> names ! (idx ! k) \<noteq> genes ! k)"
    by blast+
next
  assume "set genes \<subseteq> set names"
  from gene_indices_present [OF this]
  show "\<exists>idx'. gene_indices names genes = Inr idx'"
    by blast
next
  show "gene_indices names genes = Inl e \<longleftrightarrow>
      e = IndexError \<and> (\<exists>g\<in>set genes. \<forall>n\<in>set names. n < g)"
    by (rule gene_indices_Inl_iff)
next
  assume "fit_spatial_interactions env adata requested spatial_key ncomponents ard sf = (evs, Inr rows)"
  then show "\<exists>idx'. gene_indices (var_names adata)
                (case requested of None \<Rightarrow> var_names adata | Some g \<Rightarrow> g) = Inr idx' \<and>
         current_genes evs = idx' \<and>
         map fit_gene rows = (case requested of None \<Rightarrow> var_names adata | Some g \<Rightarrow> g)"
    by (rule fit_run_current_genes)
qed

theorem C10_witness:
  "gene_indices [''b'', ''a''] [''a'', ''aa''] = Inr [1, 0] \<and>
   ''a'' \<in> set [''b'', ''a''] \<and> [''b'', ''a''] ! 1 = ''a'' \<and>
   ''aa'' \<notin> set [''b'', ''a''] \<and> [''b'', ''a''] ! 0 \<noteq> ''aa'' \<and>
   gene_indices [''b'', ''a''] [''c''] = Inl IndexError"
proof -
  have run: "gene_indices [''b'', ''a''] [''a'', ''aa''] = Inr [1, 0]"
    by (simp add: gene_indices_def ex_argsort searchsorted_def take_positions_def)
  from C10_gene_column_lookup [THEN conjunct1, THEN mp, OF run]
  have "\<forall>k<length [''a'', ''aa''].
         (([''a'', ''aa''] :: string list) ! k \<in> set [''b'', ''a''] \<longrightarrow>
            [''b'', ''a''] ! ([1, 0] ! k) = [''a'', ''aa''] ! k) \<and>
         (([''a'', ''aa''] :: string list) ! k \<notin> set [''b'', ''a''] \<longrightarrow>
            [''b'', ''a''] ! ([1, 0] ! k) \<noteq> [''a'', ''aa''] ! k)"
    by blast
  then have 1: "[''b'', ''a''] ! 1 = ''a'' \<and> [''b'', ''a''] ! 0 \<noteq> ''aa''"
    by simp
  have "\<exists>g\<in>set [''c'']. \<forall>n\<in>set [''b'', ''a'']. n < g"
    by simp
  with C10_gene_column_lookup [THEN conjunct2, THEN conjunct2, THEN conjunct1,
      of "[''b'', ''a'']" "[''c'']" IndexError]
  have 2: "gene_indices [''b'', ''a''] [''c''] = Inl IndexError"
    by blast
  from run 1 2 show ?thesis
    by simp
qed

text \<open>
  The specification's sentence fails for a name that sorts after every gene of the data set: the request is
  not answered with some column, the call raises \<^verbatim>\<open>IndexError\<close> before any gene is fitted.
\<close>

theorem C10_counterexample:
  "fit_spatial_interactions ex_env ex_adata (Some [''c'']) ''spatial'' 1 False None =
     ([Warn AbInitioWarning, NewSpectral, NewSpectralMixture, NewSVCA, UseInteractions True,
       NewOptimizer],
      Inl IndexError)"
proof -
  have x: "obsm ex_adata ''spatial'' = Some [[0, 0], [1, 0], [0, 1]]"
    by (simp add: ex_adata_def)
  have idx: "gene_indices (var_names ex_adata) [''c''] = Inl IndexError"
    by (simp add: ex_adata_def ex_gene_indices_c)
  show ?thesis
    using fit_lookup_fails [OF ex_fit_mode_abinitio(2) x idx, of ex_env 1]
    by simp
qed

section \<open>The two modes of the fit\<close>

lemma switch_gene_Inr:
  assumes "switch_gene env adata trainable pn model i = (evs, Inr model')"
  shows "evs = (if trainable then [SetCurrentGene i]
                else [SetCurrentGene i,
                      MultipleAssign (zip pn (sa_rows (the (varm adata ''svca'')) ! i))])"
    and "currentgene model' = i"
    and "svca_expression model' = svca_expression model"
    and "svca_coords model' = svca_coords model"
    and "svca_sizefactors model' = svca_sizefactors model"
    and "interactions model' = interactions model"
    and "trainable \<Longrightarrow> svca_kernel model' = svca_kernel model"
    and "\<not> trainable \<Longrightarrow>
           i < length (sa_rows (the (varm adata ''svca''))) \<and>
           multiple_assign env (svca_kernel model)
             (zip pn (sa_rows (the (varm adata ''svca'')) ! i)) = Inr (svca_kernel model')"
  using assms
  by (auto simp: switch_gene_def Let_def split: if_splits sum.splits)







section \<open>One kernel and one model per call\<close>

lemma gene_step_not_construction: "is_gene_step e \<Longrightarrow> \<not> is_construction e"
  by (cases e) simp_all

lemma switch_gene_steps:
  "switch_gene env adata trainable pn model i = (evs, res) \<Longrightarrow> list_all is_gene_step evs"
  by (auto simp: switch_gene_def Let_def split: if_splits sum.splits)

lemma fit_loop_steps:
  "fit_loop env adata trainable pn model ps = (evs, res) \<Longrightarrow> list_all is_gene_step evs"
proof (induction ps arbitrary: model evs res)
  case Nil
  then show ?case by simp
next
  case (Cons p ps)
  obtain g i where p: "p = (g, i)" by (cases p)
  obtain evs1 r1 where sw: "switch_gene env adata trainable pn model i = (evs1, r1)"
    by (cases "switch_gene env adata trainable pn model i")
  note s1 = switch_gene_steps [OF sw]
  show ?case
  proof (cases r1)
    case (Inl e)
    with Cons.prems sw s1 show ?thesis
      unfolding p by simp
  next
    case (Inr m1)
    show ?thesis
    proof (cases "optimize env m1")
      case (Inl e)
      with Cons.prems sw s1 Inr show ?thesis
        unfolding p by auto
    next
      case m2: (Inr m2)
      obtain evs2 r2 where loop: "fit_loop env adata trainable pn m2 ps = (evs2, r2)"
        by (cases "fit_loop env adata trainable pn m2 ps")
      from Cons.IH [OF loop] have s2: "list_all is_gene_step evs2" .
      from Cons.prems sw Inr m2 loop have "evs = evs1 @ [Optimize, FractionVariance] @ evs2"
        unfolding p by (auto simp: Let_def split: sum.splits)
      with s1 s2 show ?thesis
        by simp
    qed
  qed
qed

lemma fit_mode_warnings:
  "fit_mode env adata genes ncomponents ard sf = (emitted, gs, sf', n', ard', trainable) \<Longrightarrow>
     list_all (\<lambda>e. \<not> is_construction e \<and> \<not> is_gene_step e) emitted"
  by (auto simp: fit_mode_def Let_def split: if_splits option.splits)

lemma filter_replicate_NewSpectral:
  "filter (\<lambda>e. e = NewSVCA) (replicate n NewSpectral) = []"
  "filter (\<lambda>e. e = NewSpectralMixture) (replicate n NewSpectral) = []"
  "filter (\<lambda>e. e = NewOptimizer) (replicate n NewSpectral) = []"
  "list_all (\<lambda>e. \<not> is_gene_step e) (replicate n NewSpectral)"
  by (induction n) simp_all

lemma filter_no_construction:
  assumes "list_all (\<lambda>e. \<not> is_construction e \<and> \<not> is_gene_step e) es"
  shows "filter (\<lambda>e. e = NewSVCA) es = []"
    and "filter (\<lambda>e. e = NewSpectralMixture) es = []"
    and "filter (\<lambda>e. e = NewOptimizer) es = []"
    and "list_all (\<lambda>e. \<not> is_gene_step e) es"
  using assms by (induction es) auto

text \<open>
  C8. The events of a call of \<^verbatim>\<open>fit_spatial_interactions\<close> that finds the coordinates
  split into a first part, in which the mixture, the model and the optimizer are each
  constructed exactly once and no gene is touched, and the events of the loop, none of which
  constructs anything. Switching to a gene writes \<^verbatim>\<open>currentgene\<close>; it leaves the
  expression matrix, the coordinates, the size factors and the interaction switch of the
  model as they are, leaves the kernel as it is when the parameters are trainable, and
  otherwise replaces the kernel by the result of assigning the persisted row to it.
\<close>

theorem C8_kernel_and_model_built_once:
  "(fit_spatial_interactions env adata genes spatial_key ncomponents ard sf = (evs, res) \<and>
    obsm adata spatial_key = Some x \<longrightarrow>
      (\<exists>pre loop.
         evs = pre @ loop \<and>
         length (filter (\<lambda>e. e = NewSpectralMixture) pre) = 1 \<and>
         length (filter (\<lambda>e. e = NewSVCA) pre) = 1 \<and>
         length (filter (\<lambda>e. e = NewOptimizer) pre) = 1 \<and>
         list_all (\<lambda>e. \<not> is_gene_step e) pre \<and>
         list_all is_gene_step loop \<and>
         list_all (\<lambda>e. \<not> is_construction e) loop)) \<and>
   (switch_gene env adata trainable pn model i = (evs1, Inr model') \<longrightarrow>
      currentgene model' = i \<and>
      svca_expression model' = svca_expression model \<and>
      svca_coords model' = svca_coords model \<and>
      svca_sizefactors model' = svca_sizefactors model \<and>
      interactions model' = interactions model \<and>
      (if trainable then svca_kernel model' = svca_kernel model
       else multiple_assign env (svca_kernel model)
              (zip pn (sa_rows (the (varm adata ''svca'')) ! i)) = Inr (svca_kernel model')))"
proof (intro conjI impI)
  assume a: "fit_spatial_interactions env adata genes spatial_key ncomponents ard sf = (evs, res) \<and>
    obsm adata spatial_key = Some x"
  then have run: "fit_spatial_interactions env adata genes spatial_key ncomponents ard sf = (evs, res)"
    and x: "obsm adata spatial_key = Some x"
    by simp_all
  obtain emitted gs sf' n' ard' trainable' where
    mode: "fit_mode env adata genes ncomponents ard sf = (emitted, gs, sf', n', ard', trainable')"
    using prod_cases6 by blast
  define pre where "pre = emitted @ replicate (nat n') NewSpectral @
              [NewSpectralMixture, NewSVCA, UseInteractions True, NewOptimizer]"
  note w = filter_no_construction [OF fit_mode_warnings [OF mode]]
  have pre: "length (filter (\<lambda>e. e = NewSpectralMixture) pre) = 1"
    "length (filter (\<lambda>e. e = NewSVCA) pre) = 1"
    "length (filter (\<lambda>e. e = NewOptimizer) pre) = 1"
    "list_all (\<lambda>e. \<not> is_gene_step e) pre"
    using w by (simp_all add: pre_def filter_replicate_NewSpectral)
  have "\<exists>loop. evs = pre @ loop \<and> list_all is_gene_step loop"
  proof (cases "gene_indices (var_names adata) gs")
    case (Inl e)
    from fit_lookup_fails [OF mode x Inl] run have "evs = pre @ []"
      by (simp add: pre_def)
    then show ?thesis by (intro exI [of _ "[]"]) simp
  next
    case (Inr idx)
    obtain evs' res' where loop: "fit_loop env adata trainable'
             (if \<not> trainable' then dtype_names (the (varm adata ''svca'')) else [])
             (use_interactions (SVCA (adata_X adata) x sf' (fit_kernel env (shape1 x) ard' trainable' n')) True)
             (zip gs idx) = (evs', res')"
      by (rule prod.exhaust)
    from fit_unfold [OF mode x Inr loop] run have "evs = pre @ evs'"
      by (simp add: pre_def)
    with fit_loop_steps [OF loop] show ?thesis by blast
  qed
  then obtain loop where l: "evs = pre @ loop" "list_all is_gene_step loop"
    by blast
  from l(2) have "list_all (\<lambda>e. \<not> is_construction e) loop"
    by (induction loop) (auto dest: gene_step_not_construction)
  with pre l show "\<exists>pre loop.
         evs = pre @ loop \<and>
         length (filter (\<lambda>e. e = NewSpectralMixture) pre) = 1 \<and>
         length (filter (\<lambda>e. e = NewSVCA) pre) = 1 \<and>
         length (filter (\<lambda>e. e = NewOptimizer) pre) = 1 \<and>
         list_all (\<lambda>e. \<not> is_gene_step e) pre \<and>
         list_all is_gene_step loop \<and>
         list_all (\<lambda>e. \<not> is_construction e) loop"
    by blast
next
  assume sw: "switch_gene env adata trainable pn model i = (evs1, Inr model')"
  show "currentgene model' = i"
    and "svca_expression model' = svca_expression model"
    and "svca_coords model' = svca_coords model"
    and "svca_sizefactors model' = svca_sizefactors model"
    and "interactions model' = interactions model"
    by (rule switch_gene_Inr [OF sw])+
  show "if trainable then svca_kernel model' = svca_kernel model
       else multiple_assign env (svca_kernel model)
              (zip pn (sa_rows (the (varm adata ''svca'')) ! i)) = Inr (svca_kernel model')"
    using switch_gene_Inr(7,8) [OF sw] by simp
qed

theorem C8_witness:
  "obsm ex_tested2 ''spatial'' = Some [[0, 0], [1, 0], [0, 1]] \<and>
   (\<exists>pre loop.
      fst (fit_spatial_interactions ex_env ex_tested2 None ''spatial'' 0 False None) = pre @ loop \<and>
      length (filter (\<lambda>e. e = NewSpectralMixture) pre) = 1 \<and>
      length (filter (\<lambda>e. e = NewSVCA) pre) = 1 \<and>
      list_all is_gene_step loop) \<and>
   current_genes (fst (fit_spatial_interactions ex_env ex_tested2 None ''spatial'' 0 False None)) = [0, 1]"
proof -
  have x: "obsm ex_tested2 ''spatial'' = Some [[0, 0], [1, 0], [0, 1]]"
    by (simp add: ex_tested2_def persist_def ex_adata_def Let_def)
  have run: "fit_spatial_interactions ex_env ex_tested2 None ''spatial'' 0 False None =
    (fst (fit_spatial_interactions ex_env ex_tested2 None ''spatial'' 0 False None),
     snd (fit_spatial_interactions ex_env ex_tested2 None ''spatial'' 0 False None))"
    by simp
  from C8_kernel_and_model_built_once [THEN conjunct1, THEN mp, OF conjI, OF run x]
  have 1: "\<exists>pre loop.
      fst (fit_spatial_interactions ex_env ex_tested2 None ''spatial'' 0 False None) = pre @ loop \<and>
      length (filter (\<lambda>e. e = NewSpectralMixture) pre) = 1 \<and>
      length (filter (\<lambda>e. e = NewSVCA) pre) = 1 \<and>
      list_all is_gene_step loop"
    by blast
  have 2: "current_genes (fst (fit_spatial_interactions ex_env ex_tested2 None ''spatial'' 0 False None)) = [0, 1]"
    by (simp add: ex_refit_run)
  from x 1 2 show ?thesis
    by blast
qed

section \<open>The variance fractions\<close>





end
